theory Spec2Isabelle
  imports Complex_Main "HOL-Library.Sublist" "HOL-Library.Log_Nat"
begin

section \<open>Python strings\<close>

text \<open>
  A Python \<open>str\<close> is a sequence of Unicode code points, and \<open>len\<close> counts code
  points. The transcripts are Japanese, so a string is modelled as a list of code points
  (natural numbers), written in hexadecimal as in the Unicode charts.
\<close>

type_synonym ustr = "nat list"

fun in_ranges :: "nat \<Rightarrow> (nat \<times> nat) list \<Rightarrow> bool" where
  "in_ranges c [] = False"
| "in_ranges c ((lo, hi) # rs) =
     (if c < lo then False else if c \<le> hi then True else in_ranges c rs)"

text \<open>
  The character classes of \<open>str.isspace\<close>, \<open>str.isdecimal\<close> and \<open>str.isalnum\<close>
  (Unicode 14, as CPython 3.11 ships them), as ascending tables of inclusive ranges. The
  \<open>re\<close> module's \<open>\s\<close>, \<open>\d\<close> and \<open>\w\<close> on \<open>str\<close> patterns are these
  classes, \<open>\w\<close> with the underscore added.
\<close>

definition space_table :: "(nat \<times> nat) list" where
  "space_table = [
    (0x9, 0xD), (0x1C, 0x20), (0x85, 0x85), (0xA0, 0xA0), (0x1680, 0x1680), (0x2000, 0x200A),
    (0x2028, 0x2029), (0x202F, 0x202F), (0x205F, 0x205F), (0x3000, 0x3000)]"

definition digit_table :: "(nat \<times> nat) list" where
  "digit_table = [
    (0x30, 0x39), (0x660, 0x669), (0x6F0, 0x6F9), (0x7C0, 0x7C9), (0x966, 0x96F), (0x9E6, 0x9EF),
    (0xA66, 0xA6F), (0xAE6, 0xAEF), (0xB66, 0xB6F), (0xBE6, 0xBEF), (0xC66, 0xC6F), (0xCE6, 0xCEF),
    (0xD66, 0xD6F), (0xDE6, 0xDEF), (0xE50, 0xE59), (0xED0, 0xED9), (0xF20, 0xF29), (0x1040, 0x1049),
    (0x1090, 0x1099), (0x17E0, 0x17E9), (0x1810, 0x1819), (0x1946, 0x194F), (0x19D0, 0x19D9), (0x1A80, 0x1A89),
    (0x1A90, 0x1A99), (0x1B50, 0x1B59), (0x1BB0, 0x1BB9), (0x1C40, 0x1C49), (0x1C50, 0x1C59), (0xA620, 0xA629),
    (0xA8D0, 0xA8D9), (0xA900, 0xA909), (0xA9D0, 0xA9D9), (0xA9F0, 0xA9F9), (0xAA50, 0xAA59), (0xABF0, 0xABF9),
    (0xFF10, 0xFF19), (0x104A0, 0x104A9), (0x10D30, 0x10D39), (0x11066, 0x1106F), (0x110F0, 0x110F9), (0x11136, 0x1113F),
    (0x111D0, 0x111D9), (0x112F0, 0x112F9), (0x11450, 0x11459), (0x114D0, 0x114D9), (0x11650, 0x11659), (0x116C0, 0x116C9),
    (0x11730, 0x11739), (0x118E0, 0x118E9), (0x11950, 0x11959), (0x11C50, 0x11C59), (0x11D50, 0x11D59), (0x11DA0, 0x11DA9),
    (0x16A60, 0x16A69), (0x16AC0, 0x16AC9), (0x16B50, 0x16B59), (0x1D7CE, 0x1D7FF), (0x1E140, 0x1E149), (0x1E2F0, 0x1E2F9),
    (0x1E950, 0x1E959), (0x1FBF0, 0x1FBF9)]"

definition alnum_table_0 :: "(nat \<times> nat) list" where
  "alnum_table_0 = [
    (0x30, 0x39), (0x41, 0x5A), (0x61, 0x7A), (0xAA, 0xAA), (0xB2, 0xB3), (0xB5, 0xB5),
    (0xB9, 0xBA), (0xBC, 0xBE), (0xC0, 0xD6), (0xD8, 0xF6), (0xF8, 0x2C1), (0x2C6, 0x2D1),
    (0x2E0, 0x2E4), (0x2EC, 0x2EC), (0x2EE, 0x2EE), (0x370, 0x374), (0x376, 0x377), (0x37A, 0x37D),
    (0x37F, 0x37F), (0x386, 0x386), (0x388, 0x38A), (0x38C, 0x38C), (0x38E, 0x3A1), (0x3A3, 0x3F5),
    (0x3F7, 0x481), (0x48A, 0x52F), (0x531, 0x556), (0x559, 0x559), (0x560, 0x588), (0x5D0, 0x5EA),
    (0x5EF, 0x5F2), (0x620, 0x64A), (0x660, 0x669), (0x66E, 0x66F), (0x671, 0x6D3), (0x6D5, 0x6D5),
    (0x6E5, 0x6E6), (0x6EE, 0x6FC), (0x6FF, 0x6FF), (0x710, 0x710), (0x712, 0x72F), (0x74D, 0x7A5),
    (0x7B1, 0x7B1), (0x7C0, 0x7EA), (0x7F4, 0x7F5), (0x7FA, 0x7FA), (0x800, 0x815), (0x81A, 0x81A)]"

definition alnum_table_1 :: "(nat \<times> nat) list" where
  "alnum_table_1 = [
    (0x824, 0x824), (0x828, 0x828), (0x840, 0x858), (0x860, 0x86A), (0x870, 0x887), (0x889, 0x88E),
    (0x8A0, 0x8C9), (0x904, 0x939), (0x93D, 0x93D), (0x950, 0x950), (0x958, 0x961), (0x966, 0x96F),
    (0x971, 0x980), (0x985, 0x98C), (0x98F, 0x990), (0x993, 0x9A8), (0x9AA, 0x9B0), (0x9B2, 0x9B2),
    (0x9B6, 0x9B9), (0x9BD, 0x9BD), (0x9CE, 0x9CE), (0x9DC, 0x9DD), (0x9DF, 0x9E1), (0x9E6, 0x9F1),
    (0x9F4, 0x9F9), (0x9FC, 0x9FC), (0xA05, 0xA0A), (0xA0F, 0xA10), (0xA13, 0xA28), (0xA2A, 0xA30),
    (0xA32, 0xA33), (0xA35, 0xA36), (0xA38, 0xA39), (0xA59, 0xA5C), (0xA5E, 0xA5E), (0xA66, 0xA6F),
    (0xA72, 0xA74), (0xA85, 0xA8D), (0xA8F, 0xA91), (0xA93, 0xAA8), (0xAAA, 0xAB0), (0xAB2, 0xAB3),
    (0xAB5, 0xAB9), (0xABD, 0xABD), (0xAD0, 0xAD0), (0xAE0, 0xAE1), (0xAE6, 0xAEF), (0xAF9, 0xAF9)]"

definition alnum_table_2 :: "(nat \<times> nat) list" where
  "alnum_table_2 = [
    (0xB05, 0xB0C), (0xB0F, 0xB10), (0xB13, 0xB28), (0xB2A, 0xB30), (0xB32, 0xB33), (0xB35, 0xB39),
    (0xB3D, 0xB3D), (0xB5C, 0xB5D), (0xB5F, 0xB61), (0xB66, 0xB6F), (0xB71, 0xB77), (0xB83, 0xB83),
    (0xB85, 0xB8A), (0xB8E, 0xB90), (0xB92, 0xB95), (0xB99, 0xB9A), (0xB9C, 0xB9C), (0xB9E, 0xB9F),
    (0xBA3, 0xBA4), (0xBA8, 0xBAA), (0xBAE, 0xBB9), (0xBD0, 0xBD0), (0xBE6, 0xBF2), (0xC05, 0xC0C),
    (0xC0E, 0xC10), (0xC12, 0xC28), (0xC2A, 0xC39), (0xC3D, 0xC3D), (0xC58, 0xC5A), (0xC5D, 0xC5D),
    (0xC60, 0xC61), (0xC66, 0xC6F), (0xC78, 0xC7E), (0xC80, 0xC80), (0xC85, 0xC8C), (0xC8E, 0xC90),
    (0xC92, 0xCA8), (0xCAA, 0xCB3), (0xCB5, 0xCB9), (0xCBD, 0xCBD), (0xCDD, 0xCDE), (0xCE0, 0xCE1),
    (0xCE6, 0xCEF), (0xCF1, 0xCF2), (0xD04, 0xD0C), (0xD0E, 0xD10), (0xD12, 0xD3A), (0xD3D, 0xD3D)]"

definition alnum_table_3 :: "(nat \<times> nat) list" where
  "alnum_table_3 = [
    (0xD4E, 0xD4E), (0xD54, 0xD56), (0xD58, 0xD61), (0xD66, 0xD78), (0xD7A, 0xD7F), (0xD85, 0xD96),
    (0xD9A, 0xDB1), (0xDB3, 0xDBB), (0xDBD, 0xDBD), (0xDC0, 0xDC6), (0xDE6, 0xDEF), (0xE01, 0xE30),
    (0xE32, 0xE33), (0xE40, 0xE46), (0xE50, 0xE59), (0xE81, 0xE82), (0xE84, 0xE84), (0xE86, 0xE8A),
    (0xE8C, 0xEA3), (0xEA5, 0xEA5), (0xEA7, 0xEB0), (0xEB2, 0xEB3), (0xEBD, 0xEBD), (0xEC0, 0xEC4),
    (0xEC6, 0xEC6), (0xED0, 0xED9), (0xEDC, 0xEDF), (0xF00, 0xF00), (0xF20, 0xF33), (0xF40, 0xF47),
    (0xF49, 0xF6C), (0xF88, 0xF8C), (0x1000, 0x102A), (0x103F, 0x1049), (0x1050, 0x1055), (0x105A, 0x105D),
    (0x1061, 0x1061), (0x1065, 0x1066), (0x106E, 0x1070), (0x1075, 0x1081), (0x108E, 0x108E), (0x1090, 0x1099),
    (0x10A0, 0x10C5), (0x10C7, 0x10C7), (0x10CD, 0x10CD), (0x10D0, 0x10FA), (0x10FC, 0x1248), (0x124A, 0x124D)]"

definition alnum_table_4 :: "(nat \<times> nat) list" where
  "alnum_table_4 = [
    (0x1250, 0x1256), (0x1258, 0x1258), (0x125A, 0x125D), (0x1260, 0x1288), (0x128A, 0x128D), (0x1290, 0x12B0),
    (0x12B2, 0x12B5), (0x12B8, 0x12BE), (0x12C0, 0x12C0), (0x12C2, 0x12C5), (0x12C8, 0x12D6), (0x12D8, 0x1310),
    (0x1312, 0x1315), (0x1318, 0x135A), (0x1369, 0x137C), (0x1380, 0x138F), (0x13A0, 0x13F5), (0x13F8, 0x13FD),
    (0x1401, 0x166C), (0x166F, 0x167F), (0x1681, 0x169A), (0x16A0, 0x16EA), (0x16EE, 0x16F8), (0x1700, 0x1711),
    (0x171F, 0x1731), (0x1740, 0x1751), (0x1760, 0x176C), (0x176E, 0x1770), (0x1780, 0x17B3), (0x17D7, 0x17D7),
    (0x17DC, 0x17DC), (0x17E0, 0x17E9), (0x17F0, 0x17F9), (0x1810, 0x1819), (0x1820, 0x1878), (0x1880, 0x1884),
    (0x1887, 0x18A8), (0x18AA, 0x18AA), (0x18B0, 0x18F5), (0x1900, 0x191E), (0x1946, 0x196D), (0x1970, 0x1974),
    (0x1980, 0x19AB), (0x19B0, 0x19C9), (0x19D0, 0x19DA), (0x1A00, 0x1A16), (0x1A20, 0x1A54), (0x1A80, 0x1A89)]"

definition alnum_table_5 :: "(nat \<times> nat) list" where
  "alnum_table_5 = [
    (0x1A90, 0x1A99), (0x1AA7, 0x1AA7), (0x1B05, 0x1B33), (0x1B45, 0x1B4C), (0x1B50, 0x1B59), (0x1B83, 0x1BA0),
    (0x1BAE, 0x1BE5), (0x1C00, 0x1C23), (0x1C40, 0x1C49), (0x1C4D, 0x1C7D), (0x1C80, 0x1C88), (0x1C90, 0x1CBA),
    (0x1CBD, 0x1CBF), (0x1CE9, 0x1CEC), (0x1CEE, 0x1CF3), (0x1CF5, 0x1CF6), (0x1CFA, 0x1CFA), (0x1D00, 0x1DBF),
    (0x1E00, 0x1F15), (0x1F18, 0x1F1D), (0x1F20, 0x1F45), (0x1F48, 0x1F4D), (0x1F50, 0x1F57), (0x1F59, 0x1F59),
    (0x1F5B, 0x1F5B), (0x1F5D, 0x1F5D), (0x1F5F, 0x1F7D), (0x1F80, 0x1FB4), (0x1FB6, 0x1FBC), (0x1FBE, 0x1FBE),
    (0x1FC2, 0x1FC4), (0x1FC6, 0x1FCC), (0x1FD0, 0x1FD3), (0x1FD6, 0x1FDB), (0x1FE0, 0x1FEC), (0x1FF2, 0x1FF4),
    (0x1FF6, 0x1FFC), (0x2070, 0x2071), (0x2074, 0x2079), (0x207F, 0x2089), (0x2090, 0x209C), (0x2102, 0x2102),
    (0x2107, 0x2107), (0x210A, 0x2113), (0x2115, 0x2115), (0x2119, 0x211D), (0x2124, 0x2124), (0x2126, 0x2126)]"

definition alnum_table_6 :: "(nat \<times> nat) list" where
  "alnum_table_6 = [
    (0x2128, 0x2128), (0x212A, 0x212D), (0x212F, 0x2139), (0x213C, 0x213F), (0x2145, 0x2149), (0x214E, 0x214E),
    (0x2150, 0x2189), (0x2460, 0x249B), (0x24EA, 0x24FF), (0x2776, 0x2793), (0x2C00, 0x2CE4), (0x2CEB, 0x2CEE),
    (0x2CF2, 0x2CF3), (0x2CFD, 0x2CFD), (0x2D00, 0x2D25), (0x2D27, 0x2D27), (0x2D2D, 0x2D2D), (0x2D30, 0x2D67),
    (0x2D6F, 0x2D6F), (0x2D80, 0x2D96), (0x2DA0, 0x2DA6), (0x2DA8, 0x2DAE), (0x2DB0, 0x2DB6), (0x2DB8, 0x2DBE),
    (0x2DC0, 0x2DC6), (0x2DC8, 0x2DCE), (0x2DD0, 0x2DD6), (0x2DD8, 0x2DDE), (0x2E2F, 0x2E2F), (0x3005, 0x3007),
    (0x3021, 0x3029), (0x3031, 0x3035), (0x3038, 0x303C), (0x3041, 0x3096), (0x309D, 0x309F), (0x30A1, 0x30FA),
    (0x30FC, 0x30FF), (0x3105, 0x312F), (0x3131, 0x318E), (0x3192, 0x3195), (0x31A0, 0x31BF), (0x31F0, 0x31FF),
    (0x3220, 0x3229), (0x3248, 0x324F), (0x3251, 0x325F), (0x3280, 0x3289), (0x32B1, 0x32BF), (0x3400, 0x4DBF)]"

definition alnum_table_7 :: "(nat \<times> nat) list" where
  "alnum_table_7 = [
    (0x4E00, 0xA48C), (0xA4D0, 0xA4FD), (0xA500, 0xA60C), (0xA610, 0xA62B), (0xA640, 0xA66E), (0xA67F, 0xA69D),
    (0xA6A0, 0xA6EF), (0xA717, 0xA71F), (0xA722, 0xA788), (0xA78B, 0xA7CA), (0xA7D0, 0xA7D1), (0xA7D3, 0xA7D3),
    (0xA7D5, 0xA7D9), (0xA7F2, 0xA801), (0xA803, 0xA805), (0xA807, 0xA80A), (0xA80C, 0xA822), (0xA830, 0xA835),
    (0xA840, 0xA873), (0xA882, 0xA8B3), (0xA8D0, 0xA8D9), (0xA8F2, 0xA8F7), (0xA8FB, 0xA8FB), (0xA8FD, 0xA8FE),
    (0xA900, 0xA925), (0xA930, 0xA946), (0xA960, 0xA97C), (0xA984, 0xA9B2), (0xA9CF, 0xA9D9), (0xA9E0, 0xA9E4),
    (0xA9E6, 0xA9FE), (0xAA00, 0xAA28), (0xAA40, 0xAA42), (0xAA44, 0xAA4B), (0xAA50, 0xAA59), (0xAA60, 0xAA76),
    (0xAA7A, 0xAA7A), (0xAA7E, 0xAAAF), (0xAAB1, 0xAAB1), (0xAAB5, 0xAAB6), (0xAAB9, 0xAABD), (0xAAC0, 0xAAC0),
    (0xAAC2, 0xAAC2), (0xAADB, 0xAADD), (0xAAE0, 0xAAEA), (0xAAF2, 0xAAF4), (0xAB01, 0xAB06), (0xAB09, 0xAB0E)]"

definition alnum_table_8 :: "(nat \<times> nat) list" where
  "alnum_table_8 = [
    (0xAB11, 0xAB16), (0xAB20, 0xAB26), (0xAB28, 0xAB2E), (0xAB30, 0xAB5A), (0xAB5C, 0xAB69), (0xAB70, 0xABE2),
    (0xABF0, 0xABF9), (0xAC00, 0xD7A3), (0xD7B0, 0xD7C6), (0xD7CB, 0xD7FB), (0xF900, 0xFA6D), (0xFA70, 0xFAD9),
    (0xFB00, 0xFB06), (0xFB13, 0xFB17), (0xFB1D, 0xFB1D), (0xFB1F, 0xFB28), (0xFB2A, 0xFB36), (0xFB38, 0xFB3C),
    (0xFB3E, 0xFB3E), (0xFB40, 0xFB41), (0xFB43, 0xFB44), (0xFB46, 0xFBB1), (0xFBD3, 0xFD3D), (0xFD50, 0xFD8F),
    (0xFD92, 0xFDC7), (0xFDF0, 0xFDFB), (0xFE70, 0xFE74), (0xFE76, 0xFEFC), (0xFF10, 0xFF19), (0xFF21, 0xFF3A),
    (0xFF41, 0xFF5A), (0xFF66, 0xFFBE), (0xFFC2, 0xFFC7), (0xFFCA, 0xFFCF), (0xFFD2, 0xFFD7), (0xFFDA, 0xFFDC),
    (0x10000, 0x1000B), (0x1000D, 0x10026), (0x10028, 0x1003A), (0x1003C, 0x1003D), (0x1003F, 0x1004D), (0x10050, 0x1005D),
    (0x10080, 0x100FA), (0x10107, 0x10133), (0x10140, 0x10178), (0x1018A, 0x1018B), (0x10280, 0x1029C), (0x102A0, 0x102D0)]"

definition alnum_table_9 :: "(nat \<times> nat) list" where
  "alnum_table_9 = [
    (0x102E1, 0x102FB), (0x10300, 0x10323), (0x1032D, 0x1034A), (0x10350, 0x10375), (0x10380, 0x1039D), (0x103A0, 0x103C3),
    (0x103C8, 0x103CF), (0x103D1, 0x103D5), (0x10400, 0x1049D), (0x104A0, 0x104A9), (0x104B0, 0x104D3), (0x104D8, 0x104FB),
    (0x10500, 0x10527), (0x10530, 0x10563), (0x10570, 0x1057A), (0x1057C, 0x1058A), (0x1058C, 0x10592), (0x10594, 0x10595),
    (0x10597, 0x105A1), (0x105A3, 0x105B1), (0x105B3, 0x105B9), (0x105BB, 0x105BC), (0x10600, 0x10736), (0x10740, 0x10755),
    (0x10760, 0x10767), (0x10780, 0x10785), (0x10787, 0x107B0), (0x107B2, 0x107BA), (0x10800, 0x10805), (0x10808, 0x10808),
    (0x1080A, 0x10835), (0x10837, 0x10838), (0x1083C, 0x1083C), (0x1083F, 0x10855), (0x10858, 0x10876), (0x10879, 0x1089E),
    (0x108A7, 0x108AF), (0x108E0, 0x108F2), (0x108F4, 0x108F5), (0x108FB, 0x1091B), (0x10920, 0x10939), (0x10980, 0x109B7),
    (0x109BC, 0x109CF), (0x109D2, 0x10A00), (0x10A10, 0x10A13), (0x10A15, 0x10A17), (0x10A19, 0x10A35), (0x10A40, 0x10A48)]"

definition alnum_table_10 :: "(nat \<times> nat) list" where
  "alnum_table_10 = [
    (0x10A60, 0x10A7E), (0x10A80, 0x10A9F), (0x10AC0, 0x10AC7), (0x10AC9, 0x10AE4), (0x10AEB, 0x10AEF), (0x10B00, 0x10B35),
    (0x10B40, 0x10B55), (0x10B58, 0x10B72), (0x10B78, 0x10B91), (0x10BA9, 0x10BAF), (0x10C00, 0x10C48), (0x10C80, 0x10CB2),
    (0x10CC0, 0x10CF2), (0x10CFA, 0x10D23), (0x10D30, 0x10D39), (0x10E60, 0x10E7E), (0x10E80, 0x10EA9), (0x10EB0, 0x10EB1),
    (0x10F00, 0x10F27), (0x10F30, 0x10F45), (0x10F51, 0x10F54), (0x10F70, 0x10F81), (0x10FB0, 0x10FCB), (0x10FE0, 0x10FF6),
    (0x11003, 0x11037), (0x11052, 0x1106F), (0x11071, 0x11072), (0x11075, 0x11075), (0x11083, 0x110AF), (0x110D0, 0x110E8),
    (0x110F0, 0x110F9), (0x11103, 0x11126), (0x11136, 0x1113F), (0x11144, 0x11144), (0x11147, 0x11147), (0x11150, 0x11172),
    (0x11176, 0x11176), (0x11183, 0x111B2), (0x111C1, 0x111C4), (0x111D0, 0x111DA), (0x111DC, 0x111DC), (0x111E1, 0x111F4),
    (0x11200, 0x11211), (0x11213, 0x1122B), (0x11280, 0x11286), (0x11288, 0x11288), (0x1128A, 0x1128D), (0x1128F, 0x1129D)]"

definition alnum_table_11 :: "(nat \<times> nat) list" where
  "alnum_table_11 = [
    (0x1129F, 0x112A8), (0x112B0, 0x112DE), (0x112F0, 0x112F9), (0x11305, 0x1130C), (0x1130F, 0x11310), (0x11313, 0x11328),
    (0x1132A, 0x11330), (0x11332, 0x11333), (0x11335, 0x11339), (0x1133D, 0x1133D), (0x11350, 0x11350), (0x1135D, 0x11361),
    (0x11400, 0x11434), (0x11447, 0x1144A), (0x11450, 0x11459), (0x1145F, 0x11461), (0x11480, 0x114AF), (0x114C4, 0x114C5),
    (0x114C7, 0x114C7), (0x114D0, 0x114D9), (0x11580, 0x115AE), (0x115D8, 0x115DB), (0x11600, 0x1162F), (0x11644, 0x11644),
    (0x11650, 0x11659), (0x11680, 0x116AA), (0x116B8, 0x116B8), (0x116C0, 0x116C9), (0x11700, 0x1171A), (0x11730, 0x1173B),
    (0x11740, 0x11746), (0x11800, 0x1182B), (0x118A0, 0x118F2), (0x118FF, 0x11906), (0x11909, 0x11909), (0x1190C, 0x11913),
    (0x11915, 0x11916), (0x11918, 0x1192F), (0x1193F, 0x1193F), (0x11941, 0x11941), (0x11950, 0x11959), (0x119A0, 0x119A7),
    (0x119AA, 0x119D0), (0x119E1, 0x119E1), (0x119E3, 0x119E3), (0x11A00, 0x11A00), (0x11A0B, 0x11A32), (0x11A3A, 0x11A3A)]"

definition alnum_table_12 :: "(nat \<times> nat) list" where
  "alnum_table_12 = [
    (0x11A50, 0x11A50), (0x11A5C, 0x11A89), (0x11A9D, 0x11A9D), (0x11AB0, 0x11AF8), (0x11C00, 0x11C08), (0x11C0A, 0x11C2E),
    (0x11C40, 0x11C40), (0x11C50, 0x11C6C), (0x11C72, 0x11C8F), (0x11D00, 0x11D06), (0x11D08, 0x11D09), (0x11D0B, 0x11D30),
    (0x11D46, 0x11D46), (0x11D50, 0x11D59), (0x11D60, 0x11D65), (0x11D67, 0x11D68), (0x11D6A, 0x11D89), (0x11D98, 0x11D98),
    (0x11DA0, 0x11DA9), (0x11EE0, 0x11EF2), (0x11FB0, 0x11FB0), (0x11FC0, 0x11FD4), (0x12000, 0x12399), (0x12400, 0x1246E),
    (0x12480, 0x12543), (0x12F90, 0x12FF0), (0x13000, 0x1342E), (0x14400, 0x14646), (0x16800, 0x16A38), (0x16A40, 0x16A5E),
    (0x16A60, 0x16A69), (0x16A70, 0x16ABE), (0x16AC0, 0x16AC9), (0x16AD0, 0x16AED), (0x16B00, 0x16B2F), (0x16B40, 0x16B43),
    (0x16B50, 0x16B59), (0x16B5B, 0x16B61), (0x16B63, 0x16B77), (0x16B7D, 0x16B8F), (0x16E40, 0x16E96), (0x16F00, 0x16F4A),
    (0x16F50, 0x16F50), (0x16F93, 0x16F9F), (0x16FE0, 0x16FE1), (0x16FE3, 0x16FE3), (0x17000, 0x187F7), (0x18800, 0x18CD5)]"

definition alnum_table_13 :: "(nat \<times> nat) list" where
  "alnum_table_13 = [
    (0x18D00, 0x18D08), (0x1AFF0, 0x1AFF3), (0x1AFF5, 0x1AFFB), (0x1AFFD, 0x1AFFE), (0x1B000, 0x1B122), (0x1B150, 0x1B152),
    (0x1B164, 0x1B167), (0x1B170, 0x1B2FB), (0x1BC00, 0x1BC6A), (0x1BC70, 0x1BC7C), (0x1BC80, 0x1BC88), (0x1BC90, 0x1BC99),
    (0x1D2E0, 0x1D2F3), (0x1D360, 0x1D378), (0x1D400, 0x1D454), (0x1D456, 0x1D49C), (0x1D49E, 0x1D49F), (0x1D4A2, 0x1D4A2),
    (0x1D4A5, 0x1D4A6), (0x1D4A9, 0x1D4AC), (0x1D4AE, 0x1D4B9), (0x1D4BB, 0x1D4BB), (0x1D4BD, 0x1D4C3), (0x1D4C5, 0x1D505),
    (0x1D507, 0x1D50A), (0x1D50D, 0x1D514), (0x1D516, 0x1D51C), (0x1D51E, 0x1D539), (0x1D53B, 0x1D53E), (0x1D540, 0x1D544),
    (0x1D546, 0x1D546), (0x1D54A, 0x1D550), (0x1D552, 0x1D6A5), (0x1D6A8, 0x1D6C0), (0x1D6C2, 0x1D6DA), (0x1D6DC, 0x1D6FA),
    (0x1D6FC, 0x1D714), (0x1D716, 0x1D734), (0x1D736, 0x1D74E), (0x1D750, 0x1D76E), (0x1D770, 0x1D788), (0x1D78A, 0x1D7A8),
    (0x1D7AA, 0x1D7C2), (0x1D7C4, 0x1D7CB), (0x1D7CE, 0x1D7FF), (0x1DF00, 0x1DF1E), (0x1E100, 0x1E12C), (0x1E137, 0x1E13D)]"

definition alnum_table_14 :: "(nat \<times> nat) list" where
  "alnum_table_14 = [
    (0x1E140, 0x1E149), (0x1E14E, 0x1E14E), (0x1E290, 0x1E2AD), (0x1E2C0, 0x1E2EB), (0x1E2F0, 0x1E2F9), (0x1E7E0, 0x1E7E6),
    (0x1E7E8, 0x1E7EB), (0x1E7ED, 0x1E7EE), (0x1E7F0, 0x1E7FE), (0x1E800, 0x1E8C4), (0x1E8C7, 0x1E8CF), (0x1E900, 0x1E943),
    (0x1E94B, 0x1E94B), (0x1E950, 0x1E959), (0x1EC71, 0x1ECAB), (0x1ECAD, 0x1ECAF), (0x1ECB1, 0x1ECB4), (0x1ED01, 0x1ED2D),
    (0x1ED2F, 0x1ED3D), (0x1EE00, 0x1EE03), (0x1EE05, 0x1EE1F), (0x1EE21, 0x1EE22), (0x1EE24, 0x1EE24), (0x1EE27, 0x1EE27),
    (0x1EE29, 0x1EE32), (0x1EE34, 0x1EE37), (0x1EE39, 0x1EE39), (0x1EE3B, 0x1EE3B), (0x1EE42, 0x1EE42), (0x1EE47, 0x1EE47),
    (0x1EE49, 0x1EE49), (0x1EE4B, 0x1EE4B), (0x1EE4D, 0x1EE4F), (0x1EE51, 0x1EE52), (0x1EE54, 0x1EE54), (0x1EE57, 0x1EE57),
    (0x1EE59, 0x1EE59), (0x1EE5B, 0x1EE5B), (0x1EE5D, 0x1EE5D), (0x1EE5F, 0x1EE5F), (0x1EE61, 0x1EE62), (0x1EE64, 0x1EE64),
    (0x1EE67, 0x1EE6A), (0x1EE6C, 0x1EE72), (0x1EE74, 0x1EE77), (0x1EE79, 0x1EE7C), (0x1EE7E, 0x1EE7E), (0x1EE80, 0x1EE89)]"

definition alnum_table_15 :: "(nat \<times> nat) list" where
  "alnum_table_15 = [
    (0x1EE8B, 0x1EE9B), (0x1EEA1, 0x1EEA3), (0x1EEA5, 0x1EEA9), (0x1EEAB, 0x1EEBB), (0x1F100, 0x1F10C), (0x1FBF0, 0x1FBF9),
    (0x20000, 0x2A6DF), (0x2A700, 0x2B738), (0x2B740, 0x2B81D), (0x2B820, 0x2CEA1), (0x2CEB0, 0x2EBE0), (0x2F800, 0x2FA1D),
    (0x30000, 0x3134A)]"

definition is_alnum :: "nat \<Rightarrow> bool" where
  "is_alnum c =
    (if c \<le> 0x81A then in_ranges c alnum_table_0
     else if c \<le> 0xAF9 then in_ranges c alnum_table_1
     else if c \<le> 0xD3D then in_ranges c alnum_table_2
     else if c \<le> 0x124D then in_ranges c alnum_table_3
     else if c \<le> 0x1A89 then in_ranges c alnum_table_4
     else if c \<le> 0x2126 then in_ranges c alnum_table_5
     else if c \<le> 0x4DBF then in_ranges c alnum_table_6
     else if c \<le> 0xAB0E then in_ranges c alnum_table_7
     else if c \<le> 0x102D0 then in_ranges c alnum_table_8
     else if c \<le> 0x10A48 then in_ranges c alnum_table_9
     else if c \<le> 0x1129D then in_ranges c alnum_table_10
     else if c \<le> 0x11A3A then in_ranges c alnum_table_11
     else if c \<le> 0x18CD5 then in_ranges c alnum_table_12
     else if c \<le> 0x1E13D then in_ranges c alnum_table_13
     else if c \<le> 0x1EE89 then in_ranges c alnum_table_14
     else in_ranges c alnum_table_15)"

definition is_space :: "nat \<Rightarrow> bool" where
  "is_space c = in_ranges c space_table"

definition is_digit :: "nat \<Rightarrow> bool" where
  "is_digit c = in_ranges c digit_table"

definition is_word :: "nat \<Rightarrow> bool" where
  "is_word c = (c = 0x5F \<or> is_alnum c)"

text \<open>\<open>s.strip()\<close>: whitespace removed at both ends.\<close>

definition strip :: "ustr \<Rightarrow> ustr" where
  "strip s = rev (dropWhile is_space (rev (dropWhile is_space s)))"

text \<open>\<open>x in s\<close> on strings: \<open>x\<close> occurs in \<open>s\<close> as a contiguous substring.\<close>

fun contains :: "ustr \<Rightarrow> ustr \<Rightarrow> bool" where
  "contains [] x = (x = [])"
| "contains (c # cs) x = (take (length x) (c # cs) = x \<or> contains cs x)"

section \<open>Python floats\<close>

text \<open>
  A Python \<open>float\<close> is an IEEE 754 double: a number with a significand of 53 bits. A float
  is modelled as the real number that it denotes, and every operation on floats as the
  exact operation followed by \<open>double\<close>, the rounding of a real number to the nearest
  double, a tie going to the double with an even significand. So \<open>x + y\<close> on floats is
  \<open>double (x + y)\<close>, the literal \<open>0.3\<close> is \<open>double (3 / 10)\<close>, and \<open>a / b\<close> on
  integers, which CPython rounds correctly, is \<open>double (a / b)\<close>. The literals \<open>0.0\<close>,
  \<open>0.5\<close> and \<open>1.0\<close> denote 0, 1/2 and 1 exactly. Comparisons, \<open>min\<close> and \<open>max\<close> are
  exact.

  The exponent is not bounded: the model has no overflow to infinity and no subnormal
  numbers. The floats of the program are sums of a few constants and quotients of string
  and list lengths and of token counts; for lengths and counts below \<open>2^63\<close> they
  are zero or of a magnitude between \<open>2^-200\<close> and \<open>2^200\<close>, far inside the range
  of the normal doubles, where this rounding is that of the hardware.
\<close>

definition round_even :: "real \<Rightarrow> int" where
  \<comment> \<open>the nearest integer, a tie going to the even one\<close>
  "round_even q =
     (let f = \<lfloor>q\<rfloor>; d = q - of_int f in
      if d < 1 / 2 then f else if 1 / 2 < d then f + 1 else if even f then f else f + 1)"

definition expo :: "real \<Rightarrow> int" where
  \<comment> \<open>for \<open>0 < x\<close>, the exponent \<open>e\<close> with \<open>2^e \<le> x < 2^(e+1)\<close>\<close>
  "expo x = (if 1 \<le> x then bitlen \<lfloor>x\<rfloor> - 1 else - bitlen (\<lceil>1 / x\<rceil> - 1))"

definition double :: "real \<Rightarrow> real" where
  "double x =
     (if x = 0 then 0
      else of_int (round_even (x / 2 powi (expo \<bar>x\<bar> - 52))) * 2 powi (expo \<bar>x\<bar> - 52))"

text \<open>
  \<open>sum(xs)\<close> on floats adds from left to right, starting from the integer 0 (CPython
  up to version 3.11, whose Unicode tables are the ones used above).
\<close>

definition float_sum :: "real list \<Rightarrow> real" where
  "float_sum xs = foldl (\<lambda>total x. double (total + x)) 0 xs"

section \<open>The regular expressions of the \<open>re\<close> module\<close>

text \<open>
  The fragment of Python's regular expressions that the program's patterns use: literals,
  character classes, sequence, alternation, the greedy repetition \<open>x{n,}\<close> of a
  one-character item (\<open>x*\<close> is \<open>Many 0\<close>, \<open>x+\<close> is \<open>Many 1\<close>), capturing groups,
  back-references, the word boundary \<open>\b\<close>, the look-aheads \<open>(?=r)\<close> and \<open>(?!r)\<close>,
  and \<open>$\<close>.
\<close>

datatype rx =
    Eps
  | Lit nat
  | Cls "nat \<Rightarrow> bool"
  | Seq rx rx
  | Alt rx rx
  | Many nat "nat \<Rightarrow> bool"
  | Grp nat rx
  | Bref nat
  | Bnd
  | Ahead rx
  | NotAhead rx
  | Eos

text \<open>
  A matcher state: the character just before the current position (\<open>None\<close> at the start
  of the string), the text still to be read, and the groups captured so far (latest first).
\<close>

type_synonym caps = "(nat \<times> ustr) list"
type_synonym mstate = "nat option \<times> ustr \<times> caps"

definition word_before :: "nat option \<Rightarrow> bool" where
  "word_before p = (case p of None \<Rightarrow> False | Some c \<Rightarrow> is_word c)"

definition word_after :: "ustr \<Rightarrow> bool" where
  "word_after s = (case s of [] \<Rightarrow> False | c # _ \<Rightarrow> is_word c)"

text \<open>
  \<open>many n P st\<close>: the states after reading at least \<open>n\<close> characters of class \<open>P\<close>,
  the longest run first (greedy, backing off one character at a time).
\<close>

fun many :: "nat \<Rightarrow> (nat \<Rightarrow> bool) \<Rightarrow> mstate \<Rightarrow> mstate list" where
  "many n P (p, [], g) = (if n = 0 then [(p, [], g)] else [])"
| "many n P (p, x # xs, g) =
     (if P x then many (n - 1) P (Some x, xs, g) else []) @
     (if n = 0 then [(p, x # xs, g)] else [])"

text \<open>
  \<open>run r st\<close>: every state in which a match of \<open>r\<close> started in \<open>st\<close> can end, in the
  order in which the backtracking matcher of \<open>re\<close> tries them. The head of the list is
  the match that \<open>re\<close> reports.
\<close>

primrec run :: "rx \<Rightarrow> mstate \<Rightarrow> mstate list" where
  "run Eps st = [st]"
| "run (Lit c) st =
     (case st of (p, s, g) \<Rightarrow>
        (case s of [] \<Rightarrow> [] | x # xs \<Rightarrow> if x = c then [(Some x, xs, g)] else []))"
| "run (Cls P) st =
     (case st of (p, s, g) \<Rightarrow>
        (case s of [] \<Rightarrow> [] | x # xs \<Rightarrow> if P x then [(Some x, xs, g)] else []))"
| "run (Seq a b) st = concat (map (run b) (run a st))"
| "run (Alt a b) st = run a st @ run b st"
| "run (Many n P) st = many n P st"
| "run (Grp k r) st =
     (case st of (p, s, g) \<Rightarrow>
        map (\<lambda>(p', s', g'). (p', s', (k, take (length s - length s') s) # g')) (run r st))"
| "run (Bref k) st =
     (case st of (p, s, g) \<Rightarrow>
        (case map_of g k of
           None \<Rightarrow> []
         | Some w \<Rightarrow>
             if take (length w) s = w
             then [(if w = [] then p else Some (last w), drop (length w) s, g)]
             else []))"
| "run Bnd st =
     (case st of (p, s, g) \<Rightarrow> if word_before p \<noteq> word_after s then [st] else [])"
| "run (Ahead r) st = (if run r st = [] then [] else [st])"
| "run (NotAhead r) st = (if run r st = [] then [st] else [])"
| "run Eos st = (case st of (p, s, g) \<Rightarrow> if s = [] \<or> s = [0x0A] then [st] else [])"

text \<open>A literal string, and a sequence of patterns.\<close>

fun lits :: "ustr \<Rightarrow> rx" where
  "lits [] = Eps"
| "lits (c # cs) = Seq (Lit c) (lits cs)"

fun seqs :: "rx list \<Rightarrow> rx" where
  "seqs [] = Eps"
| "seqs (r # rs) = Seq r (seqs rs)"

definition group_text :: "caps \<Rightarrow> nat \<Rightarrow> ustr" where
  "group_text g k = (case map_of g k of None \<Rightarrow> [] | Some w \<Rightarrow> w)"

text \<open>
  \<open>match_at r p s\<close>: the match of \<open>r\<close> that starts exactly at the beginning of \<open>s\<close>
  (with \<open>p\<close> the character before it): its length and its groups.
\<close>

definition match_at :: "rx \<Rightarrow> nat option \<Rightarrow> ustr \<Rightarrow> (nat \<times> caps) option" where
  "match_at r p s =
     (case run r (p, s, []) of
        [] \<Rightarrow> None
      | (p', s', g) # _ \<Rightarrow> Some (length s - length s', g))"

text \<open>
  \<open>re.search\<close>: the leftmost match, as (start, length, groups); \<open>scan\<close> walks the
  string from left to right.
\<close>

fun scan :: "rx \<Rightarrow> nat option \<Rightarrow> ustr \<Rightarrow> (nat \<times> nat \<times> caps) option" where
  "scan r p [] = map_option (\<lambda>(n, g). (0, n, g)) (match_at r p [])"
| "scan r p (x # xs) =
     (case match_at r p (x # xs) of
        Some (n, g) \<Rightarrow> Some (0, n, g)
      | None \<Rightarrow> map_option (\<lambda>(i, n, g). (Suc i, n, g)) (scan r (Some x) xs))"

definition re_search :: "rx \<Rightarrow> ustr \<Rightarrow> (nat \<times> nat \<times> caps) option" where
  "re_search r s = scan r None s"

text \<open>\<open>re.match\<close>: a match at the start of the string only.\<close>

definition re_match :: "rx \<Rightarrow> ustr \<Rightarrow> (nat \<times> caps) option" where
  "re_match r s = match_at r None s"

text \<open>
  A replacement template of \<open>re.sub\<close>: literal text and group references \<open>\1\<close>.
\<close>

datatype ritem = Txt ustr | Ref nat

fun expand :: "ritem list \<Rightarrow> caps \<Rightarrow> ustr" where
  "expand [] g = []"
| "expand (Txt t # items) g = t @ expand items g"
| "expand (Ref k # items) g = group_text g k @ expand items g"

text \<open>
  \<open>re.sub\<close>: every non-overlapping match, from left to right, is replaced by the
  expanded template. Every pattern of the program reads at least one character when it
  matches; an empty match (length 0) is replaced and the scan moves on by one character.
\<close>

function sub_from :: "rx \<Rightarrow> ritem list \<Rightarrow> nat option \<Rightarrow> ustr \<Rightarrow> ustr" where
  "sub_from r rep p [] =
     (case match_at r p [] of Some (n, g) \<Rightarrow> expand rep g | None \<Rightarrow> [])"
| "sub_from r rep p (x # xs) =
     (case match_at r p (x # xs) of
        None \<Rightarrow> x # sub_from r rep (Some x) xs
      | Some (n, g) \<Rightarrow>
          if n = 0 then expand rep g @ x # sub_from r rep (Some x) xs
          else expand rep g @
               sub_from r rep (Some (last (take n (x # xs)))) (drop n (x # xs)))"
  by pat_completeness auto
termination
  by (relation "measure (\<lambda>(r, rep, p, s). length s)") auto

definition re_sub :: "rx \<Rightarrow> ritem list \<Rightarrow> ustr \<Rightarrow> ustr" where
  "re_sub r rep s = sub_from r rep None s"

text \<open>
  \<open>re.split\<close> for a pattern with one capturing group: the text before each match and
  the group's text alternate, and the text after the last match ends the list. \<open>acc\<close>
  is the text read since the last match. As for \<open>re.sub\<close>, the patterns of the
  program never match the empty string; the scan steps over an empty match.
\<close>

function split_from :: "rx \<Rightarrow> nat option \<Rightarrow> ustr \<Rightarrow> ustr \<Rightarrow> ustr list" where
  "split_from r p acc [] = [acc]"
| "split_from r p acc (x # xs) =
     (case match_at r p (x # xs) of
        None \<Rightarrow> split_from r (Some x) (acc @ [x]) xs
      | Some (n, g) \<Rightarrow>
          if n = 0 then split_from r (Some x) (acc @ [x]) xs
          else acc # group_text g 1 #
               split_from r (Some (last (take n (x # xs)))) [] (drop n (x # xs)))"
  by pat_completeness auto
termination
  by (relation "measure (\<lambda>(r, p, acc, s). length s)") auto

definition re_split :: "rx \<Rightarrow> ustr \<Rightarrow> ustr list" where
  "re_split r s = split_from r None [] s"

section \<open>The rule-based corrector (final_system.py)\<close>

subsection \<open>LightweightCorrector.load_patterns\<close>

text \<open>
  \<open>tech_terms\<close> and \<open>ending_fixes\<close> are dicts in the source; a dict literal iterates in
  the order it is written, so each table is a list of (pattern, replacement) pairs.
\<close>

definition kana_or_latin :: "nat \<Rightarrow> bool" where
  \<comment> \<open>the class [U+3042-U+3093 A-Z a-z] of the punctuation rules\<close>
  "kana_or_latin c =
     ((0x3042 \<le> c \<and> c \<le> 0x3093) \<or> (0x41 \<le> c \<and> c \<le> 0x5A) \<or> (0x61 \<le> c \<and> c \<le> 0x7A))"

definition tech_terms :: "(rx \<times> ustr) list" where
  "tech_terms = [
     (seqs [Bnd, lits [0x30D9, 0x30EB, 0x30C8], Bnd], [0x30D9, 0x30EB, 0x30C8, 0x30F3]),
     (seqs [Bnd, lits [0x30D9, 0x30EB, 0x20, 0x30C8], Bnd], [0x30D9, 0x30EB, 0x30C8, 0x30F3]),
     (seqs [Bnd, lits [0x30B8, 0x30FC, 0x30D4, 0x30FC, 0x30C6, 0x30A3, 0x30FC], Bnd], [0x47, 0x50, 0x54]),
     (seqs [Bnd, lits [0x30E9, 0x30FC, 0x30E0], Bnd], [0x4C, 0x6C, 0x61, 0x6D, 0x61]),
     (seqs [Bnd, lits [0x30A8, 0x30EB, 0x30A8, 0x30E0], Bnd], [0x4C, 0x4C, 0x4D]),
     (seqs [Bnd, lits [0x677E, 0x5C3E, 0x7814], Bnd, NotAhead (lits [0x7A76, 0x5BA4])], [0x677E, 0x5C3E, 0x7814, 0x7A76, 0x5BA4]),
     (lits [0x3068, 0x3082, 0x914D, 0x3082], [0x3068, 0x3082, 0x304B, 0x304F]),
     (lits [0x7DE8, 0x96C6, 0x42, 0x45, 0x52, 0x54], [0x42, 0x45, 0x52, 0x54]),
     (lits [0x3042, 0x306E, 0x5F8C, 0x5358, 0x8A9E], [0x5F8C, 0x307B, 0x3069])]"

definition space_or_end :: rx where
  \<comment> \<open>the look-ahead (?=\s|$)\<close>
  "space_or_end = Ahead (Alt (Cls is_space) Eos)"

definition ending_fixes :: "(rx \<times> ustr) list" where
  "ending_fixes = [
     (seqs [lits [0x7533, 0x3057, 0x3059], space_or_end], [0x7533, 0x3057, 0x307E, 0x3059]),
     (seqs [lits [0x3054, 0x3056, 0x3044, 0x3059], space_or_end], [0x3054, 0x3056, 0x3044, 0x307E, 0x3059]),
     (seqs [lits [0x601D, 0x3044, 0x3059], space_or_end], [0x601D, 0x3044, 0x307E, 0x3059]),
     (lits [0x308A, 0x304C, 0x3068, 0x3046, 0x3054, 0x3056, 0x3044, 0x3059], [0x3042, 0x308A, 0x304C, 0x3068, 0x3046, 0x3054, 0x3056, 0x3044, 0x307E, 0x3059])]"

definition naturalness_rules :: "(rx \<times> ustr) list" where
  "naturalness_rules = [
     (seqs [lits [0x3060, 0x3063, 0x305F, 0x306E, 0x304B, 0x306A], Cls (\<lambda>c. c = 0x3001 \<or> c = 0x3002)], [0x3067, 0x3057, 0x305F, 0x3002]),
     (lits [0x3042, 0x308B, 0x306E, 0x304B, 0x306A, 0x3068, 0x601D], [0x3042, 0x308B, 0x3068, 0x601D]),
     (lits [0x304B, 0x306A, 0x3068, 0x3044, 0x3046, 0x3075, 0x3046], [0x304B, 0x3068, 0x601D]),
     (lits [0x3063, 0x3066, 0x3044, 0x3046], [0x3068, 0x3044, 0x3046]),
     (lits [0x3060, 0x3063, 0x305F, 0x308A, 0x3068, 0x304B], [0x3084])]"

definition filler_patterns :: "(rx \<times> ustr) list" where
  "filler_patterns = [
     (seqs [Many 0 is_space, Many 1 (\<lambda>c. c = 0x3048 \<or> c = 0x3042),
            Many 0 (\<lambda>c. c = 0x30FC), Many 0 is_space], [0x20]),
     (seqs [Many 0 is_space, lits [0x3042, 0x306E], Many 0 (\<lambda>c. c = 0x30FC), Many 0 is_space], [0x20]),
     (seqs [lits [0x306A, 0x3093, 0x304B], Many 1 is_space], [])]"

definition punctuation_rules :: "(rx \<times> ritem list) list" where
  "punctuation_rules = [
     (seqs [lits [0x7533, 0x3057, 0x307E, 0x3059], Grp 1 (Cls kana_or_latin)], [Txt [0x7533, 0x3057, 0x307E, 0x3059, 0x3002], Ref 1]),
     (seqs [lits [0x3054, 0x3056, 0x3044, 0x307E, 0x3059], Grp 1 (Cls kana_or_latin)], [Txt [0x3054, 0x3056, 0x3044, 0x307E, 0x3059, 0x3002], Ref 1]),
     (seqs [lits [0x601D, 0x3044, 0x307E, 0x3059], Grp 1 (Cls kana_or_latin)], [Txt [0x601D, 0x3044, 0x307E, 0x3059, 0x3002], Ref 1])]"

definition repetition_patterns :: "(rx \<times> ritem list) list" where
  "repetition_patterns = [
     (seqs [Bnd, Grp 1 (Many 1 is_word), lits [0x306B, 0x306A, 0x308B], Bref 1, Bnd], [Ref 1]),
     (seqs [Bnd, Grp 1 (Many 1 is_word), Many 1 is_space, Bref 1, Ahead (Cls is_space)],
      [Ref 1])]"

text \<open>The labels written to the correction log.\<close>

definition label_tech :: ustr where "label_tech = [0x5C02, 0x9580, 0x7528, 0x8A9E, 0x3A, 0x20]"
definition label_ending :: ustr where "label_ending = [0x8A9E, 0x5C3E, 0x4FEE, 0x6B63, 0x3A, 0x20]"
definition label_repetition :: ustr where "label_repetition = [0x7E70, 0x308A, 0x8FD4, 0x3057, 0x9664, 0x53BB]"
definition label_filler :: ustr where "label_filler = [0x30D5, 0x30A3, 0x30E9, 0x30FC, 0x9664, 0x53BB]"
definition label_natural :: ustr where "label_natural = [0x81EA, 0x7136, 0x5316]"
definition label_punct :: ustr where "label_punct = [0x53E5, 0x8AAD, 0x70B9, 0x8FFD, 0x52A0]"

subsection \<open>LightweightCorrector.correct_text\<close>

text \<open>
  Each of the six rule stages is the same loop: for each pattern of the table in order,
  if \<open>re.search\<close> finds it in the current text, \<open>re.sub\<close> rewrites the text and one
  label is appended to the log. The stages differ in the label: the first two append
  the stage's prefix followed by the replacement, the others a fixed label.
\<close>

fun stage :: "(rx \<times> ritem list \<times> ustr) list \<Rightarrow> ustr \<times> ustr list \<Rightarrow> ustr \<times> ustr list" where
  "stage [] (txt, clog) = (txt, clog)"
| "stage ((pattern, replacement, label) # rules) (txt, clog) =
     stage rules
       (if re_search pattern txt \<noteq> None
        then (re_sub pattern replacement txt, clog @ [label])
        else (txt, clog))"

definition cleanup :: "ustr \<Rightarrow> ustr" where
  "cleanup t =
     strip
       (re_sub (seqs [Many 0 is_space,
                      Grp 1 (Cls (\<lambda>c. c = 0x3002 \<or> c = 0x3001 \<or> c = 0xFF01 \<or> c = 0xFF1F))])
               [Ref 1]
          (re_sub (Many 2 is_space) [Txt [0x20]] t))"

definition score_simple :: "ustr list \<Rightarrow> real" where
  \<comment> \<open>min(1.0, len(corrections_log) / 5 + 0.3)\<close>
  "score_simple clog = min 1 (double (double (real (length clog) / 5) + double (3 / 10)))"

text \<open>The six tables with their labels, in the order in which \<open>correct_text\<close> runs them.\<close>

definition rule_tables :: "(rx \<times> ritem list \<times> ustr) list list" where
  "rule_tables =
     [map (\<lambda>(p, r). (p, [Txt r], label_tech @ r)) tech_terms,
      map (\<lambda>(p, r). (p, [Txt r], label_ending @ r)) ending_fixes,
      map (\<lambda>(p, r). (p, r, label_repetition)) repetition_patterns,
      map (\<lambda>(p, r). (p, [Txt r], label_filler)) filler_patterns,
      map (\<lambda>(p, r). (p, [Txt r], label_natural)) naturalness_rules,
      map (\<lambda>(p, r). (p, r, label_punct)) punctuation_rules]"

definition rule_stages :: "ustr \<Rightarrow> ustr \<times> ustr list" where
  "rule_stages text = foldl (\<lambda>acc rules. stage rules acc) (text, []) rule_tables"

definition correct_text :: "ustr \<Rightarrow> ustr \<times> ustr list \<times> real" where
  "correct_text text =
     (case rule_stages text of
        (txt, corrections_log) \<Rightarrow>
          (cleanup txt, corrections_log, score_simple corrections_log))"

subsection \<open>LightweightCorrector.process_segments\<close>

definition digits :: rx where
  "digits = Many 1 is_digit"

definition time_pattern :: rx where
  \<comment> \<open>\d+:\d+:\d+\<close>
  "time_pattern = seqs [digits, Lit 0x3A, digits, Lit 0x3A, digits]"

definition header_body :: rx where
  \<comment> \<open>\[\d+:\d+:\d+ - \d+:\d+:\d+\]\<close>
  "header_body = seqs [Lit 0x5B, time_pattern, lits [0x20, 0x2D, 0x20], time_pattern, Lit 0x5D]"

definition header_pattern :: rx where
  \<comment> \<open>(\[\d+:\d+:\d+ - \d+:\d+:\d+\]), the separator of \<open>re.split\<close>\<close>
  "header_pattern = Grp 1 header_body"

definition ts_pattern :: rx where
  \<comment> \<open>\[(\d+:\d+:\d+) - (\d+:\d+:\d+)\]\<close>
  "ts_pattern =
     seqs [Lit 0x5B, Grp 1 time_pattern, lits [0x20, 0x2D, 0x20], Grp 2 time_pattern, Lit 0x5D]"

record segment =
  seg_id :: nat
  start_time :: ustr
  end_time :: ustr
  original :: ustr
  corrected :: ustr
  corrections :: "ustr list"
  quality :: real

definition parse_timestamp :: "ustr \<Rightarrow> ustr \<times> ustr" where
  "parse_timestamp timestamp =
     (case re_search ts_pattern timestamp of
        Some (i, n, g) \<Rightarrow> (group_text g 1, group_text g 2)
      | None \<Rightarrow> ([0x30, 0x30, 0x3A, 0x30, 0x30, 0x3A, 0x30, 0x30], [0x30, 0x30, 0x3A, 0x30, 0x30, 0x3A, 0x30, 0x30]))"

text \<open>
  The loop \<open>for i in range(1, len(segments), 2)\<close> reads the pieces after the first two
  at a time, a header and the text that follows it; a header with no piece after it
  (\<open>i + 1 < len(segments)\<close> fails) is passed over. \<open>results\<close> is the list built so far.
\<close>

fun segment_loop :: "ustr list \<Rightarrow> segment list \<Rightarrow> segment list" where
  "segment_loop (timestamp # piece # others) results =
     (if strip piece \<noteq> [] then
        (case parse_timestamp timestamp of (start, stop) \<Rightarrow>
         (case correct_text (strip piece) of (corr, corrs, q) \<Rightarrow>
            segment_loop others
              (results @
               [\<lparr>seg_id = length results + 1, start_time = start, end_time = stop,
                 original = strip piece, corrected = corr, corrections = corrs,
                 quality = q\<rparr>])))
      else segment_loop others results)"
| "segment_loop [timestamp] results = results"
| "segment_loop [] results = results"

definition process_segments :: "ustr \<Rightarrow> segment list" where
  "process_segments text = segment_loop (tl (re_split header_pattern text)) []"

subsection \<open>Writing the corrected transcript (main)\<close>

definition header_text :: "ustr \<Rightarrow> ustr \<Rightarrow> ustr" where
  \<comment> \<open>[{start_time} - {end_time}]\<close>
  "header_text start stop = [0x5B] @ start @ [0x20, 0x2D, 0x20] @ stop @ [0x5D]"

definition write_segment :: "ustr \<Rightarrow> ustr \<Rightarrow> ustr \<Rightarrow> ustr" where
  \<comment> \<open>the two f.write calls: the header line, then the text and a blank line\<close>
  "write_segment start stop txt = header_text start stop @ [0x0A] @ txt @ [0x0A, 0x0A]"

definition write_output :: "segment list \<Rightarrow> ustr" where
  "write_output results =
     concat (map (\<lambda>r. write_segment (start_time r) (end_time r) (corrected r)) results)"

text \<open>
  After writing, \<open>main\<close> prints the average quality,
  \<open>sum(r['quality'] for r in results)/len(results)\<close>, with no guard.
\<close>

datatype py_error = ZeroDivisionError

definition main_average_quality :: "segment list \<Rightarrow> py_error + real" where
  "main_average_quality results =
     (if length results = 0 then Inl ZeroDivisionError
      else Inr (double (float_sum (map quality results) / double (real (length results)))))"

section \<open>The LLM-assisted corrector (nova_system.py)\<close>

subsection \<open>NovaCorrector.needs_llm_correction\<close>

definition complex_patterns :: "rx list" where
  "complex_patterns = [
     seqs [Many 3 (\<lambda>c. 0x3042 \<le> c \<and> c \<le> 0x3093), Lit 0x3082],
     lits [0x5E30, 0x6F0F, 0x3089, 0x3057],
     lits [0x30A8, 0x30DD, 0x30C3, 0x30AF],
     lits [0x7C21, 0x6613, 0x56DE],
     seqs [lits [0x30D0, 0x30C3, 0x30C8], Cls (\<lambda>c. c \<noteq> 0x30FC)],
     lits [0x304A, 0x8179, 0x5207, 0x308A],
     lits [0x5186, 0x5468, 0x90E8, 0x5206],
     lits [0x30D9, 0x30EB, 0x30C8, 0x30F3, 0x3055, 0x3093],
     lits [0x677E, 0x5C3E, 0x5CA9, 0x6FA4, 0x7814],
     lits [0x30B9, 0x30EC, 0x30C3, 0x30C9, 0x31],
     lits [0x47, 0x6F, 0x6F, 0x67, 0x6C, 0x65, 0x30B3, 0x30E9, 0x30DC]]"

definition needs_llm_correction :: "ustr \<Rightarrow> bool" where
  "needs_llm_correction text = list_ex (\<lambda>pattern. re_search pattern text \<noteq> None) complex_patterns"

subsection \<open>NovaCorrector.create_correction_prompt\<close>

text \<open>The f-string of the source: the text to correct between a fixed head and tail.\<close>

definition prompt_head :: ustr where
  "prompt_head = [
     0x4EE5, 0x4E0B, 0x306F, 0x5927, 0x898F, 0x6A21, 0x8A00, 0x8A9E, 0x30E2, 0x30C7, 0x30EB, 0xFF08,
     0x4C, 0x4C, 0x4D, 0xFF09, 0x8B1B, 0x5EA7, 0x306E, 0x66F8, 0x304D, 0x8D77, 0x3053, 0x3057,
     0x30C6, 0x30AD, 0x30B9, 0x30C8, 0x3067, 0x3059, 0x3002, 0x53, 0x70, 0x65, 0x65, 0x63,
     0x68, 0x2D, 0x74, 0x6F, 0x2D, 0x54, 0x65, 0x78, 0x74, 0x306B, 0x3088, 0x308B,
     0x8AA4, 0x8A8D, 0x8B58, 0x3092, 0x4FEE, 0x6B63, 0x3057, 0x3066, 0x3001, 0x81EA, 0x7136, 0x3067,
     0x6B63, 0x78BA, 0x306A, 0x65E5, 0x672C, 0x8A9E, 0x306B, 0x76F4, 0x3057, 0x3066, 0x304F, 0x3060,
     0x3055, 0x3044, 0x3002, 0xA, 0xA, 0x3010, 0x4FEE, 0x6B63, 0x30EB, 0x30FC, 0x30EB, 0x3011,
     0xA, 0x31, 0x2E, 0x20, 0x5C02, 0x9580, 0x7528, 0x8A9E, 0x30FB, 0x4EBA, 0x540D, 0x30FB,
     0x7D44, 0x7E54, 0x540D, 0x3092, 0x6B63, 0x78BA, 0x306B, 0x4FEE, 0x6B63, 0xA, 0x20, 0x20,
     0x20, 0x2D, 0x20, 0x300C, 0x30D9, 0x30EB, 0x30C8, 0x30F3, 0x3055, 0x3093, 0x300D, 0x2192,
     0x300C, 0x30D9, 0x30EB, 0x30C8, 0x30F3, 0x3055, 0x3093, 0x300D, 0xFF08, 0x4EBA, 0x540D, 0x3068,
     0x3057, 0x3066, 0x9069, 0x5207, 0x306B, 0xFF09, 0xA, 0x20, 0x20, 0x20, 0x2D, 0x20,
     0x300C, 0x677E, 0x5C3E, 0x5CA9, 0x6FA4, 0x7814, 0x300D, 0x2192, 0x300C, 0x677E, 0x5C3E, 0x30FB,
     0x5CA9, 0x6FA4, 0x7814, 0x300D, 0xFF08, 0x6B63, 0x5F0F, 0x7D44, 0x7E54, 0x540D, 0xFF09, 0xA,
     0x20, 0x20, 0x20, 0x2D, 0x20, 0x300C, 0x47, 0x6F, 0x6F, 0x67, 0x6C, 0x65,
     0x30B3, 0x30E9, 0x30DC, 0x300D, 0x2192, 0x300C, 0x47, 0x6F, 0x6F, 0x67, 0x6C, 0x65,
     0x20, 0x43, 0x6F, 0x6C, 0x61, 0x62, 0x300D, 0xA, 0x20, 0x20, 0x20, 0x2D,
     0x20, 0x300C, 0x30B9, 0x30EC, 0x30C3, 0x30C9, 0x31, 0x300D, 0x2192, 0x300C, 0x30EF, 0x30F3,
     0x30B9, 0x30EC, 0x30C3, 0x30C9, 0x31, 0x300D, 0xA, 0xA, 0x32, 0x2E, 0x20, 0x97F3,
     0x97FB, 0x985E, 0x4F3C, 0x306B, 0x3088, 0x308B, 0x8AA4, 0x8A8D, 0x8B58, 0x4FEE, 0x6B63, 0xA,
     0x20, 0x20, 0x20, 0x2D, 0x20, 0x300C, 0x5E30, 0x6F0F, 0x3089, 0x3057, 0x300D, 0x2192,
     0x300C, 0x805E, 0x304D, 0x6F0F, 0x3089, 0x3057, 0x300D, 0xA, 0x20, 0x20, 0x20, 0x2D,
     0x20, 0x300C, 0x7C21, 0x6613, 0x56DE, 0x300D, 0x2192, 0x300C, 0x7BC4, 0x56F2, 0x5916, 0x300D,
     0xA, 0x20, 0x20, 0x20, 0x2D, 0x20, 0x300C, 0x30D0, 0x30C3, 0x30C8, 0x300D, 0x2192,
     0x300C, 0x30D0, 0x30C3, 0x30C9, 0x300D, 0xFF08, 0x42, 0x61, 0x64, 0xFF09, 0xA, 0x20,
     0x20, 0x20, 0x2D, 0x20, 0x300C, 0x5186, 0x5468, 0x90E8, 0x5206, 0x300D, 0x2192, 0x300C,
     0x6F14, 0x7FD2, 0x90E8, 0x5206, 0x300D, 0xA, 0xA, 0x33, 0x2E, 0x20, 0x6587, 0x8108,
     0x4F9D, 0x5B58, 0x306E, 0x8A9E, 0x53E5, 0x4FEE, 0x6B63, 0xA, 0x20, 0x20, 0x20, 0x2D,
     0x20, 0x300C, 0x3068, 0x3082, 0x914D, 0x3082, 0x300D, 0x2192, 0x300C, 0x3068, 0x3082, 0x304B,
     0x304F, 0x300D, 0x307E, 0x305F, 0x306F, 0x300C, 0x3053, 0x306E, 0x5F8C, 0x300D, 0xFF08, 0x6587,
     0x8108, 0x306B, 0x5FDC, 0x3058, 0x3066, 0xFF09, 0xA, 0x20, 0x20, 0x20, 0x2D, 0x20,
     0x300C, 0x30A8, 0x30DD, 0x30C3, 0x30AF, 0x300D, 0x2192, 0x9069, 0x5207, 0x306A, 0x4EBA, 0x540D,
     0x30FB, 0x7528, 0x8A9E, 0x306B, 0xA, 0x20, 0x20, 0x20, 0x2D, 0x20, 0x300C, 0x304A,
     0x8179, 0x5207, 0x308A, 0x53D6, 0x308A, 0x305F, 0x3044, 0x300D, 0x2192, 0x300C, 0x53EF, 0x80FD,
     0x306A, 0x9650, 0x308A, 0x53D6, 0x308A, 0x305F, 0x3044, 0x300D, 0xA, 0xA, 0x34, 0x2E,
     0x20, 0x4E0D, 0x81EA, 0x7136, 0x306A, 0x8868, 0x73FE, 0x306E, 0x81EA, 0x7136, 0x5316, 0xA,
     0x20, 0x20, 0x20, 0x2D, 0x20, 0x8A71, 0x3057, 0x8A00, 0x8449, 0x3092, 0x9069, 0x5207,
     0x306A, 0x66F8, 0x304D, 0x8A00, 0x8449, 0x306B, 0xA, 0x20, 0x20, 0x20, 0x2D, 0x20,
     0x7E70, 0x308A, 0x8FD4, 0x3057, 0x3084, 0x5197, 0x9577, 0x8868, 0x73FE, 0x306E, 0x524A, 0x9664,
     0xA, 0xA, 0x3010, 0x91CD, 0x8981, 0x3011, 0xA, 0x2D, 0x20, 0x5143, 0x306E, 0x610F,
     0x5473, 0x3092, 0x4FDD, 0x6301, 0x3059, 0x308B, 0x3053, 0x3068, 0xA, 0x2D, 0x20, 0x8B1B,
     0x7FA9, 0x306E, 0x5185, 0x5BB9, 0x30FB, 0x6587, 0x8108, 0x306B, 0x9069, 0x3057, 0x305F, 0x4FEE,
     0x6B63, 0x3092, 0x884C, 0x3046, 0x3053, 0x3068, 0xA, 0x2D, 0x20, 0x904E, 0x5EA6, 0x306A,
     0x4FEE, 0x6B63, 0x306F, 0x907F, 0x3051, 0x3001, 0x5FC5, 0x8981, 0x6700, 0x5C0F, 0x9650, 0x306E,
     0x5909, 0x66F4, 0x306B, 0x7559, 0x3081, 0x308B, 0x3053, 0x3068, 0xA, 0xA, 0x3010, 0x4FEE,
     0x6B63, 0x5BFE, 0x8C61, 0x30C6, 0x30AD, 0x30B9, 0x30C8, 0x3011, 0xA]"

definition prompt_tail :: ustr where
  "prompt_tail = [
     0xA, 0xA, 0x3010, 0x4FEE, 0x6B63, 0x5F8C, 0x3011, 0xFF08, 0x4FEE, 0x6B63, 0x3055, 0x308C,
     0x305F, 0x30C6, 0x30AD, 0x30B9, 0x30C8, 0x306E, 0x307F, 0x3092, 0x51FA, 0x529B, 0x3057, 0x3066,
     0x304F, 0x3060, 0x3055, 0x3044, 0xFF09, 0x3A]"

definition create_correction_prompt :: "ustr \<Rightarrow> ustr" where
  "create_correction_prompt text = prompt_head @ text @ prompt_tail"

subsection \<open>NovaCorrector.call_nova_micro\<close>

text \<open>
  The Bedrock service is outside the program. One call either raises (any exception of
  \<open>invoke_model\<close> or of decoding its body, caught by the \<open>except Exception\<close> of
  \<open>call_nova_micro\<close>), or answers with the two token counts of \<open>usage\<close> and the text
  of the first content block of \<open>output.message\<close> (\<open>None\<close> when the answer has no
  such block). The client is \<open>None\<close> when its initialisation failed or LLM use is
  switched off.
\<close>

datatype invoke_result = Raised | Response nat nat "ustr option"

type_synonym bedrock_client = "ustr \<Rightarrow> invoke_result"

record accounting =
  total_input_tokens :: nat
  total_output_tokens :: nat
  total_cost :: real

text \<open>
  The cost of one call: \<open>input_tokens * 0.000035 / 1000 + output_tokens * 0.00014 / 1000\<close>,
  the token counts being integers.
\<close>

definition call_cost :: "nat \<Rightarrow> nat \<Rightarrow> real" where
  "call_cost input_tokens output_tokens =
     double (double (double (double (real input_tokens) * double (35 / 1000000)) / 1000) +
             double (double (double (real output_tokens) * double (14 / 100000)) / 1000))"

definition call_nova_micro ::
  "bedrock_client option \<Rightarrow> accounting \<Rightarrow> ustr \<Rightarrow> ustr option \<times> accounting" where
  "call_nova_micro client acc prompt =
     (case client of
        None \<Rightarrow> (None, acc)
      | Some invoke_model \<Rightarrow>
          (case invoke_model prompt of
             Raised \<Rightarrow> (None, acc)
           | Response input_tokens output_tokens reply \<Rightarrow>
               (map_option strip reply,
                acc\<lparr>total_input_tokens := total_input_tokens acc + input_tokens,
                    total_output_tokens := total_output_tokens acc + output_tokens,
                    total_cost := double (total_cost acc + call_cost input_tokens output_tokens)\<rparr>)))"

subsection \<open>NovaCorrector.enhanced_correct_text\<close>

definition label_llm :: ustr where "label_llm = [0x4C, 0x4C, 0x4D, 0x6587, 0x8108, 0x4FEE, 0x6B63]"

text \<open>
  \<open>if llm_result and llm_result != rule_corrected\<close>: a reply that is \<open>None\<close> or the
  empty string is falsy.
\<close>

definition enhanced_correct_text ::
  "bedrock_client option \<Rightarrow> accounting \<Rightarrow> ustr \<Rightarrow> (ustr \<times> ustr list \<times> real) \<times> accounting" where
  "enhanced_correct_text client acc text =
     (case correct_text text of
        (rule_corrected, rule_corrections, rule_quality) \<Rightarrow>
          if needs_llm_correction rule_corrected then
            (case call_nova_micro client acc (create_correction_prompt rule_corrected) of
               (llm_result, acc') \<Rightarrow>
                 (case llm_result of
                    None \<Rightarrow> ((rule_corrected, rule_corrections, rule_quality), acc')
                  | Some reply \<Rightarrow>
                      if reply \<noteq> [] \<and> reply \<noteq> rule_corrected
                      then ((reply, rule_corrections @ [label_llm],
                             min 1 (double (rule_quality + double (3 / 10)))),
                            acc')
                      else ((rule_corrected, rule_corrections, rule_quality), acc')))
          else ((rule_corrected, rule_corrections, rule_quality), acc))"

subsection \<open>NovaCorrector.process_segments_enhanced\<close>

record esegment = segment +
  llm_used :: bool

definition mentions_llm :: "ustr list \<Rightarrow> bool" where
  \<comment> \<open>any('LLM' in c for c in corrections)\<close>
  "mentions_llm corrs = list_ex (\<lambda>c. contains c [0x4C, 0x4C, 0x4D]) corrs"

fun enhanced_loop ::
  "bedrock_client option \<Rightarrow> ustr list \<Rightarrow> esegment list \<times> accounting \<Rightarrow> esegment list \<times> accounting" where
  "enhanced_loop client (timestamp # piece # others) (results, acc) =
     (if strip piece \<noteq> [] then
        (case parse_timestamp timestamp of (start, stop) \<Rightarrow>
         (case enhanced_correct_text client acc (strip piece) of ((corr, corrs, q), acc') \<Rightarrow>
            enhanced_loop client others
              (results @
               [\<lparr>seg_id = length results + 1, start_time = start, end_time = stop,
                 original = strip piece, corrected = corr, corrections = corrs,
                 quality = q, llm_used = mentions_llm corrs\<rparr>], acc')))
      else enhanced_loop client others (results, acc))"
| "enhanced_loop client [timestamp] (results, acc) = (results, acc)"
| "enhanced_loop client [] (results, acc) = (results, acc)"

definition process_segments_enhanced ::
  "bedrock_client option \<Rightarrow> accounting \<Rightarrow> ustr \<Rightarrow> esegment list \<times> accounting" where
  "process_segments_enhanced client acc text =
     enhanced_loop client (tl (re_split header_pattern text)) ([], acc)"

section \<open>The batch statistics (batch_processor.py)\<close>

record batch_stats =
  bs_total_segments :: nat
  bs_llm_usage :: nat
  bs_average_quality :: real
  bs_high_quality_count :: nat
  bs_total_cost_jpy :: real
  bs_input_tokens :: nat
  bs_output_tokens :: nat

text \<open>
  \<open>BatchProcessor.save_batch_stats\<close>, without the time stamp of the run (the wall clock
  is not modelled).
\<close>

definition save_batch_stats :: "accounting \<Rightarrow> esegment list \<Rightarrow> batch_stats" where
  "save_batch_stats acc all_results =
     \<lparr>bs_total_segments = length all_results,
      bs_llm_usage = length (filter llm_used all_results),
      bs_average_quality =
        (if all_results \<noteq> []
         then double (float_sum (map quality all_results) / double (real (length all_results)))
         else 0),
      bs_high_quality_count = length (filter (\<lambda>r. quality r > double (7 / 10)) all_results),
      bs_total_cost_jpy = double (total_cost acc * 150),
      bs_input_tokens = total_input_tokens acc,
      bs_output_tokens = total_output_tokens acc\<rparr>"

section \<open>The evaluator (improved_evaluator.py)\<close>

subsection \<open>extract_segments_improved\<close>

text \<open>\<open>s.split(sep)\<close> for a one-character separator; \<open>acc\<close> is the piece being read.\<close>

fun split_on :: "nat \<Rightarrow> ustr \<Rightarrow> ustr \<Rightarrow> ustr list" where
  "split_on sep acc [] = [acc]"
| "split_on sep acc (x # xs) =
     (if x = sep then acc # split_on sep [] xs else split_on sep (acc @ [x]) xs)"

record raw_segment =
  timestamp :: ustr
  content :: ustr
  line_number :: nat

text \<open>
  The loop over \<open>enumerate(lines)\<close>; \<open>cur\<close> is \<open>current_segment\<close> and \<open>segs\<close> the
  list \<open>segments\<close>. After the loop the last segment is appended if it has content.
\<close>

fun extract_loop :: "(nat \<times> ustr) list \<Rightarrow> raw_segment \<Rightarrow> raw_segment list \<Rightarrow> raw_segment list" where
  "extract_loop [] cur segs = (if content cur \<noteq> [] then segs @ [cur] else segs)"
| "extract_loop ((line_num, line) # rest) cur segs =
     (if re_match header_body (strip line) \<noteq> None then
        extract_loop rest \<lparr>timestamp = strip line, content = [], line_number = line_num\<rparr>
          (if content cur \<noteq> [] then segs @ [cur] else segs)
      else if strip line \<noteq> [] then
        extract_loop rest (cur\<lparr>content := content cur @ strip line @ [0x20]\<rparr>) segs
      else extract_loop rest cur segs)"

definition extract_segments_improved :: "ustr \<Rightarrow> raw_segment list" where
  "extract_segments_improved text =
     extract_loop (enumerate 0 (split_on 0x0A [] text))
       \<lparr>timestamp = [], content = [], line_number = 0\<rparr> []"

subsection \<open>calculate_realistic_quality_score\<close>

definition asc :: "string \<Rightarrow> ustr" where
  \<comment> \<open>an ASCII string as code points\<close>
  "asc s = map of_char s"

definition correction_weights :: "(ustr \<times> real) list" where
  "correction_weights = [
     (asc ''technical_terms'', double (2 / 10)),
     (asc ''repetition_removal'', double (15 / 100)),
     (asc ''grammar_fixes'', double (15 / 100)),
     (asc ''punctuation_improvement'', double (1 / 10)),
     (asc ''naturalness_improvement'', double (1 / 10)),
     (asc ''filler_removal'', double (5 / 100))]"

definition weight_of :: "ustr \<Rightarrow> real" where
  \<comment> \<open>correction_weights.get(correction, 0.02)\<close>
  "weight_of correction =
     (case map_of correction_weights correction of
        Some w \<Rightarrow> w
      | None \<Rightarrow> double (2 / 100))"

definition improvements :: "(rx \<times> ustr) list" where
  "improvements = [
     (lits [0x44, 0x61, 0x79, 0x32, 0x306B, 0x306A, 0x308B, 0x44, 0x61, 0x79, 0x32], [0x44, 0x61, 0x79, 0x32]),
     (lits [0x307E, 0x3059, 0x30BF, 0x30A4, 0x30C8, 0x30EB], [0x307E, 0x3059, 0x3002, 0x30BF, 0x30A4, 0x30C8, 0x30EB]),
     (lits [0x304B, 0x306A, 0x3068, 0x601D, 0x3063, 0x3066, 0x3044, 0x308B], [0x304B, 0x3068, 0x601D])]"

definition detect_obvious_improvements :: "ustr \<Rightarrow> ustr \<Rightarrow> bool" where
  "detect_obvious_improvements orig corr =
     list_ex (\<lambda>(bad_pattern, good_pattern).
                re_search bad_pattern orig \<noteq> None \<and> contains corr good_pattern)
       improvements"

definition arigatou :: ustr where "arigatou = [0x3042, 0x308A, 0x304C, 0x3068, 0x3046, 0x3054, 0x3056, 0x3044, 0x307E, 0x3059]"
definition rigatou :: ustr where "rigatou = [0x308A, 0x304C, 0x3068, 0x3046, 0x3054, 0x3056, 0x3044, 0x307E, 0x3059]"

definition important_words :: "ustr list" where
  "important_words = [[0x8B1B, 0x5E2B], [0x8B1B, 0x5EA7], [0x7686, 0x3055, 0x3093], [0x7814, 0x7A76, 0x5BA4]]"

definition keyword_lost :: "ustr \<Rightarrow> ustr \<Rightarrow> bool" where
  \<comment> \<open>the loop of detect_deterioration over important_words\<close>
  "keyword_lost orig corr =
     list_ex (\<lambda>word. contains orig word \<and> \<not> contains corr word) important_words"

definition detect_deterioration :: "ustr \<Rightarrow> ustr \<Rightarrow> bool" where
  "detect_deterioration orig corr =
     (if contains orig arigatou \<and> contains corr rigatou then True
      else keyword_lost orig corr)"

definition length_ratio :: "ustr \<Rightarrow> ustr \<Rightarrow> real" where
  \<comment> \<open>len(corrected) / max(len(original), 1)\<close>
  "length_ratio orig corr = double (real (length corr) / real (max (length orig) 1))"

definition calculate_realistic_quality_score :: "ustr \<Rightarrow> ustr \<Rightarrow> ustr list \<Rightarrow> real" where
  "calculate_realistic_quality_score orig corr corrs =
     (let score1 = foldl (\<lambda>score correction. double (score + weight_of correction)) (1 / 2) corrs;
          score2 = (if double (7 / 10) \<le> length_ratio orig corr \<and>
                       length_ratio orig corr \<le> double (13 / 10)
                    then double (score1 + double (1 / 10))
                    else if length_ratio orig corr < 1 / 2 then double (score1 - double (2 / 10))
                    else score1);
          score3 = (if detect_obvious_improvements orig corr
                    then double (score2 + double (15 / 100)) else score2);
          score4 = (if detect_deterioration orig corr
                    then double (score3 - double (3 / 10)) else score3)
      in min (max score4 0) 1)"

subsection \<open>calculate_overall_metrics\<close>

text \<open>\<open>s.split()\<close>: the maximal runs of non-whitespace characters.\<close>

fun split_ws :: "ustr \<Rightarrow> ustr \<Rightarrow> ustr list" where
  "split_ws acc [] = (if acc = [] then [] else [acc])"
| "split_ws acc (x # xs) =
     (if is_space x then (if acc = [] then split_ws [] xs else acc # split_ws [] xs)
      else split_ws (acc @ [x]) xs)"

definition sentence_end :: "nat \<Rightarrow> bool" where
  "sentence_end c = (c = 0x3002 \<or> c = 0xFF01 \<or> c = 0xFF1F)"

definition comma_or_stop :: "nat \<Rightarrow> bool" where
  "comma_or_stop c = (c = 0x3002 \<or> c = 0x3001)"

record overall_metrics =
  character_reduction :: int
  character_reduction_ratio :: real
  sentence_count_change :: int
  punctuation_density_improvement :: real

text \<open>
  The dict literal is evaluated entry by entry; the second entry divides by
  \<open>len(original)\<close>, which raises \<open>ZeroDivisionError\<close> for an empty original.
\<close>

definition calculate_overall_metrics :: "ustr \<Rightarrow> ustr \<Rightarrow> py_error + overall_metrics" where
  "calculate_overall_metrics orig corr =
     (if length orig = 0 then Inl ZeroDivisionError
      else Inr
        \<lparr>character_reduction = int (length orig) - int (length corr),
         character_reduction_ratio =
           double (of_int (int (length orig) - int (length corr)) / real (length orig)),
         sentence_count_change =
           int (length (filter sentence_end corr)) - int (length (filter sentence_end orig)),
         punctuation_density_improvement =
           (if split_ws [] corr \<noteq> [] \<and> split_ws [] orig \<noteq> []
            then double
                   (double (real (length (filter comma_or_stop corr)) /
                            real (length (split_ws [] corr))) -
                    double (real (length (filter comma_or_stop orig)) /
                            real (length (split_ws [] orig))))
            else 0)\<rparr>)"

section \<open>The specification's formulas and example transcripts\<close>

text \<open>
  The lightweight score as the specification words it, in exact arithmetic: 0.3 plus 0.2
  for each distinct category of the log, capped at 1. The category of a log entry is its
  text up to the colon (the first two stages append the replacement after it).
\<close>

definition category_of :: "ustr \<Rightarrow> ustr" where
  "category_of entry = takeWhile (\<lambda>c. c \<noteq> 0x3A) entry"

definition spec_simple_score :: "ustr list \<Rightarrow> real" where
  "spec_simple_score clog =
     min 1 (3 / 10 + 2 / 10 * real (length (remdups (map category_of clog))))"

text \<open>
  The labels of the rule patterns that match, in the order of the rules: each pattern is
  searched in the text as the patterns before it have rewritten it.
\<close>

fun matched :: "(rx \<times> ritem list \<times> ustr) list \<Rightarrow> ustr \<Rightarrow> ustr list" where
  "matched [] txt = []"
| "matched ((pattern, replacement, label) # rules) txt =
     (if re_search pattern txt \<noteq> None
      then label # matched rules (re_sub pattern replacement txt)
      else matched rules txt)"

text \<open>
  The float \<open>min(1.0, n / 5 + 0.3)\<close> for each number \<open>n\<close> of log entries: 0.3 plus 0.2
  for each entry, capped at 1, except that for three entries the two roundings of the sum
  give the double just below 0.9.
\<close>

definition per_entry_score :: "nat \<Rightarrow> real" where
  "per_entry_score n =
     (if n = 0 then double (3 / 10)
      else if n = 1 then 1 / 2
      else if n = 2 then double (7 / 10)
      else if n = 3 then double (8999999999999999 / 10000000000000000)
      else 1)"



definition truncated_phrase :: "ustr \<Rightarrow> ustr \<Rightarrow> bool" where
  "truncated_phrase orig corr =
     (contains orig arigatou \<and> contains corr rigatou \<and> \<not> contains corr arigatou)"

definition spec_deterioration :: "ustr \<Rightarrow> ustr \<Rightarrow> bool" where
  "spec_deterioration orig corr = (truncated_phrase orig corr \<or> keyword_lost orig corr)"





text \<open>
  A time is three non-empty runs of digits separated by colons, the strings that
  \<open>\d+:\d+:\d+\<close> matches as a whole.
\<close>

definition digit_run :: "ustr \<Rightarrow> bool" where
  "digit_run ds = (ds \<noteq> [] \<and> list_all is_digit ds)"

definition is_time :: "ustr \<Rightarrow> bool" where
  "is_time t =
     (\<exists>a b c. digit_run a \<and> digit_run b \<and> digit_run c \<and> t = a @ 0x3A # b @ 0x3A # c)"

text \<open>
  The matcher in continuation form: \<open>runk r K st\<close> runs \<open>r\<close> and hands every end
  state to \<open>K\<close>. A continuation needs the character \<open>c\<close> if it fails on every
  text that does not begin with \<open>c\<close>.
\<close>

definition runk :: "rx \<Rightarrow> (mstate \<Rightarrow> 'a list) \<Rightarrow> mstate \<Rightarrow> 'a list" where
  "runk r K st = concat (map K (run r st))"

definition needs :: "nat \<Rightarrow> (mstate \<Rightarrow> 'a list) \<Rightarrow> bool" where
  "needs c K = (\<forall>p s g. (case s of [] \<Rightarrow> True | x # xs \<Rightarrow> x \<noteq> c) \<longrightarrow> K (p, s, g) = [])"

definition prev_after :: "nat option \<Rightarrow> ustr \<Rightarrow> nat option" where
  \<comment> \<open>the character before the position reached after reading \<open>u\<close>\<close>
  "prev_after p u = (if u = [] then p else Some (last u))"

text \<open>
  A unit of a written transcript: two times and a text. It is well formed when the text
  is not empty, has no whitespace at its ends and contains no timestamp header.
\<close>

definition unit_text :: "ustr \<times> ustr \<times> ustr \<Rightarrow> ustr" where
  "unit_text u = (case u of (a, b, c) \<Rightarrow> write_segment a b c)"

definition unit_pieces :: "ustr \<times> ustr \<times> ustr \<Rightarrow> ustr list" where
  "unit_pieces u = (case u of (a, b, c) \<Rightarrow> [header_text a b, 0x0A # c @ [0x0A, 0x0A]])"

definition wf_unit :: "ustr \<times> ustr \<times> ustr \<Rightarrow> bool" where
  "wf_unit u =
     (case u of (a, b, c) \<Rightarrow>
        is_time a \<and> is_time b \<and> c \<noteq> [] \<and> strip c = c \<and> re_search header_pattern c = None)"

text \<open>
  The pieces that follow the first one, read two at a time: a header with the text after
  it. A header with nothing after it is left out, as in \<open>segment_loop\<close>.
\<close>

fun units :: "ustr list \<Rightarrow> (ustr \<times> ustr) list" where
  "units (h # c # others) = (h, c) # units others"
| "units [h] = []"
| "units [] = []"

text \<open>
  The example of the specification: one unit whose text is two truncated polite verbs,
  the output the specification gives for it, and the output of the program.
\<close>

definition example_input :: ustr where
  "example_input = [0x5B, 0x30, 0x3A, 0x30, 0x30, 0x3A, 0x30, 0x31, 0x20, 0x2D, 0x20, 0x30, 0x3A, 0x30, 0x30, 0x3A, 0x30, 0x35, 0x5D, 0x20, 0x7533, 0x3057, 0x3059, 0x3054, 0x3056, 0x3044, 0x3059]"

definition example_spec_output :: ustr where
  "example_spec_output = [0x5B, 0x30, 0x3A, 0x30, 0x30, 0x3A, 0x30, 0x31, 0x20, 0x2D, 0x20, 0x30, 0x3A, 0x30, 0x30, 0x3A, 0x30, 0x35, 0x5D, 0xA, 0x7533, 0x3057, 0x307E, 0x3059, 0x3002, 0x3054, 0x3056, 0x3044, 0x307E, 0x3059, 0x3002, 0xA, 0xA]"

definition example_output :: ustr where
  "example_output = [0x5B, 0x30, 0x3A, 0x30, 0x30, 0x3A, 0x30, 0x31, 0x20, 0x2D, 0x20, 0x30, 0x3A, 0x30, 0x30, 0x3A, 0x30, 0x35, 0x5D, 0xA, 0x7533, 0x3057, 0x3059, 0x3054, 0x3056, 0x3044, 0x307E, 0x3059, 0xA, 0xA]"

text \<open>Two truncated verbs separated by a space: both ending repairs apply.\<close>

definition two_endings :: ustr where
  "two_endings = [0x7533, 0x3057, 0x3059, 0x20, 0x601D, 0x3044, 0x3059]"

text \<open>A unit that is a hesitation sound only.\<close>

definition filler_only_input :: ustr where
  "filler_only_input = [0x5B, 0x30, 0x3A, 0x30, 0x30, 0x3A, 0x30, 0x31, 0x20, 0x2D, 0x20, 0x30, 0x3A, 0x30, 0x30, 0x3A, 0x30, 0x35, 0x5D, 0x20, 0x3048, 0x30FC]"

text \<open>
  A unit in which the rule stage writes the term LLM and the escalation gate finds a
  confusable name.
\<close>

definition llm_term_input :: ustr where
  "llm_term_input = [0x5B, 0x30, 0x3A, 0x30, 0x30, 0x3A, 0x30, 0x31, 0x20, 0x2D, 0x20, 0x30, 0x3A, 0x30, 0x30, 0x3A, 0x30, 0x35, 0x5D, 0x20, 0x30A8, 0x30EB, 0x30A8, 0x30E0, 0x20, 0x30A8, 0x30DD, 0x30C3, 0x30AF]"

definition no_accounting :: accounting where
  "no_accounting = \<lparr>total_input_tokens = 0, total_output_tokens = 0, total_cost = 0\<rparr>"

text \<open>Three headers, the second with blank text, after some text with no header.\<close>

definition three_headers :: ustr where
  "three_headers = [0x69, 0x6E, 0x74, 0x72, 0x6F, 0x20, 0x5B, 0x30, 0x3A, 0x30, 0x30, 0x3A, 0x30, 0x31, 0x20, 0x2D, 0x20, 0x30, 0x3A, 0x30, 0x30, 0x3A, 0x30, 0x35, 0x5D, 0x20, 0x61, 0x62, 0x63, 0xA, 0x5B, 0x30, 0x3A, 0x30, 0x30, 0x3A, 0x30, 0x35, 0x20, 0x2D, 0x20, 0x30, 0x3A, 0x30, 0x30, 0x3A, 0x30, 0x39, 0x5D, 0x20, 0x20, 0xA, 0x5B, 0x30, 0x3A, 0x30, 0x30, 0x3A, 0x30, 0x39, 0x20, 0x2D, 0x20, 0x30, 0x3A, 0x30, 0x30, 0x3A, 0x31, 0x32, 0x5D, 0x20, 0x78]"

section \<open>Rounding to a double\<close>

text \<open>
  The exponent that \<open>expo\<close> computes is the one of the binade of its argument.
\<close>

lemma expo_ge1:
  assumes "1 \<le> x"
  shows "2 powi expo x \<le> x \<and> x < 2 powi (expo x + 1)"
proof -
  let ?m = "\<lfloor>x\<rfloor>"
  have m: "0 < ?m" using assms by linarith
  have b: "1 \<le> bitlen ?m" using m by (auto simp: bitlen_alt_def)
  from bitlen_bounds [OF m] have lo: "2 ^ nat (bitlen ?m - 1) \<le> ?m" and hi: "?m < 2 ^ nat (bitlen ?m)"
    by auto
  have 1: "2 ^ nat (bitlen ?m - 1) \<le> x"
    using lo by (simp add: le_floor_iff)
  have 2: "x < 2 ^ nat (bitlen ?m)"
    using hi by (simp add: floor_less_iff)
  show ?thesis
    using 1 2 b assms by (simp add: expo_def power_int_def)
qed

lemma expo_lt1:
  assumes "0 < x" and "x < 1"
  shows "2 powi expo x \<le> x \<and> x < 2 powi (expo x + 1)"
proof -
  let ?y = "1 / x"
  let ?n = "\<lceil>?y\<rceil> - 1"
  have y: "1 < ?y" using assms by simp
  then have n: "0 < ?n" by linarith
  have b: "1 \<le> bitlen ?n" using n by (auto simp: bitlen_alt_def)
  from bitlen_bounds [OF n] have lo: "2 ^ nat (bitlen ?n - 1) \<le> ?n" and hi: "?n < 2 ^ nat (bitlen ?n)"
    by auto
  have "of_int ?n < ?y" by linarith
  moreover have "(2::real) ^ nat (bitlen ?n - 1) \<le> of_int ?n"
    using lo by (metis of_int_le_iff of_int_numeral of_int_power)
  ultimately have 1: "2 ^ nat (bitlen ?n - 1) < ?y" by linarith
  have "?n + 1 \<le> 2 ^ nat (bitlen ?n)" using hi by linarith
  then have "(of_int (?n + 1) :: real) \<le> 2 ^ nat (bitlen ?n)"
    by (metis of_int_le_iff of_int_numeral of_int_power)
  moreover have "?y \<le> of_int (?n + 1)" by simp
  ultimately have 2: "?y \<le> 2 ^ nat (bitlen ?n)" by linarith
  have e: "expo x = - bitlen ?n" using assms by (simp add: expo_def)
  have p1: "(2::real) powi expo x = 1 / 2 ^ nat (bitlen ?n)"
    using b by (simp add: e power_int_def inverse_eq_divide power_one_over)
  have p2: "(2::real) powi (expo x + 1) = 1 / 2 ^ nat (bitlen ?n - 1)"
    using b by (simp add: e power_int_def inverse_eq_divide power_one_over nat_diff_distrib)
  show ?thesis
    unfolding p1 p2 using 1 2 assms(1) by (simp add: field_simps)
qed

lemma expo_bounds: "0 < x \<Longrightarrow> 2 powi expo x \<le> x \<and> x < 2 powi (expo x + 1)"
  using expo_ge1 [of x] expo_lt1 [of x] by (cases "1 \<le> x") auto

lemma powi_mono2: "a \<le> b \<Longrightarrow> (2::real) powi a \<le> 2 powi b"
  by (simp add: power_int_increasing)

lemma expo_unique:
  assumes "0 < x" and "2 powi e \<le> x" and "x < 2 powi (e + 1)"
  shows "expo x = e"
proof (rule ccontr)
  assume ne: "expo x \<noteq> e"
  from expo_bounds [OF assms(1)] have b: "2 powi expo x \<le> x" "x < 2 powi (expo x + 1)"
    by auto
  show False
  proof (cases "expo x < e")
    case True
    then have "(2::real) powi (expo x + 1) \<le> 2 powi e" by (intro powi_mono2) simp
    then show False using b(2) assms(2) by linarith
  next
    case False
    then have "e + 1 \<le> expo x" using ne by simp
    then have "(2::real) powi (e + 1) \<le> 2 powi expo x" by (intro powi_mono2)
    then show False using b(1) assms(3) by linarith
  qed
qed


text \<open>Rounding to an integer keeps integers and the order.\<close>

lemma round_even_int: "round_even (of_int n) = n"
  by (simp add: round_even_def)

lemma round_even_cases: "round_even q = \<lfloor>q\<rfloor> \<or> round_even q = \<lfloor>q\<rfloor> + 1"
  by (simp add: round_even_def Let_def)

lemma round_even_mono:
  assumes "q \<le> r"
  shows "round_even q \<le> round_even r"
proof (cases "\<lfloor>q\<rfloor> = \<lfloor>r\<rfloor>")
  case True
  then show ?thesis
    using assms by (auto simp: round_even_def Let_def)
next
  case False
  then have "\<lfloor>q\<rfloor> + 1 \<le> \<lfloor>r\<rfloor>"
    using floor_mono [OF assms] by linarith
  then show ?thesis
    using round_even_cases [of q] round_even_cases [of r] by linarith
qed

lemma round_even_minus: "round_even (- q) = - round_even q"
proof (cases "q = of_int \<lfloor>q\<rfloor>")
  case True
  then obtain n where "q = of_int n" ..
  then have "round_even q = n" "round_even (- q) = - n"
    using round_even_int [of n] round_even_int [of "- n"] by simp_all
  then show ?thesis by simp
next
  case False
  then have lt: "of_int \<lfloor>q\<rfloor> < q" using of_int_floor_le [of q] by linarith
  have f: "\<lfloor>- q\<rfloor> = - \<lfloor>q\<rfloor> - 1"
    using lt by (intro floor_unique) (simp_all, linarith+)
  show ?thesis
    unfolding round_even_def Let_def f using lt by (auto simp: algebra_simps)
qed


lemma scale_52: "(2::real) powi (e - 52) * 4503599627370496 = 2 powi e"
  using power_int_add [of "2::real" "e - 52" 52] by simp

lemma scale_53: "(2::real) powi (e - 52) * 9007199254740992 = 2 powi (e + 1)"
  using power_int_add [of "2::real" "e - 52" 53] by (simp add: add.commute)

text \<open>
  Rounding to a double keeps the sign and the order, stays within the binade, and leaves
  a double unchanged.
\<close>

lemma double_zero: "double 0 = 0"
  by (simp add: double_def)

lemma double_minus: "double (- x) = - double x"
  by (simp add: double_def round_even_minus)

lemma double_pos:
  "0 < x \<Longrightarrow> double x = of_int (round_even (x / 2 powi (expo x - 52))) * 2 powi (expo x - 52)"
  by (simp add: double_def)

lemma double_eval:
  assumes "0 < x" and "2 powi e \<le> x" and "x < 2 powi (e + 1)"
  shows "double x = of_int (round_even (x / 2 powi (e - 52))) * 2 powi (e - 52)"
  using expo_unique [OF assms] assms(1) by (simp add: double_def)

lemma mantissa_range:
  assumes "0 < x"
  shows "4503599627370496 \<le> round_even (x / 2 powi (expo x - 52)) \<and>
         round_even (x / 2 powi (expo x - 52)) \<le> 9007199254740992"
proof -
  let ?u = "(2::real) powi (expo x - 52)"
  from expo_bounds [OF assms] have "?u * 4503599627370496 \<le> x" "x < ?u * 9007199254740992"
    by (simp_all only: scale_52 scale_53)
  then have "of_int 4503599627370496 \<le> x / ?u" "x / ?u \<le> of_int 9007199254740992"
    by (simp_all add: field_simps)
  then have "round_even (of_int 4503599627370496) \<le> round_even (x / ?u)"
    "round_even (x / ?u) \<le> round_even (of_int 9007199254740992)"
    by (simp_all only: round_even_mono)
  then show ?thesis
    by (simp only: round_even_int)
qed

lemma double_range:
  assumes "0 < x"
  shows "2 powi expo x \<le> double x \<and> double x \<le> 2 powi (expo x + 1)"
proof -
  let ?u = "(2::real) powi (expo x - 52)"
  let ?m = "round_even (x / ?u)"
  from mantissa_range [OF assms]
  have "(4503599627370496::real) \<le> of_int ?m" "of_int ?m \<le> (9007199254740992::real)"
    by linarith+
  then have "?u * 4503599627370496 \<le> of_int ?m * ?u" "of_int ?m * ?u \<le> ?u * 9007199254740992"
    by (simp_all add: mult.commute)
  then show ?thesis
    by (simp only: double_pos [OF assms] scale_52 scale_53)
qed

lemma double_nonneg: "0 \<le> x \<Longrightarrow> 0 \<le> double x"
proof (cases "x = 0")
  case True
  then show ?thesis by (simp add: double_zero)
next
  case False
  assume "0 \<le> x"
  with False have "0 < x" by simp
  from double_range [OF this] have "2 powi expo x \<le> double x" ..
  moreover have "0 < (2::real) powi expo x" by simp
  ultimately show ?thesis by linarith
qed

lemma double_mono_pos:
  assumes "0 < x" and "x \<le> y"
  shows "double x \<le> double y"
proof -
  have y: "0 < y" using assms by linarith
  from expo_bounds [OF assms(1)] have bx: "2 powi expo x \<le> x" "x < 2 powi (expo x + 1)"
    by auto
  from expo_bounds [OF y] have by': "2 powi expo y \<le> y" "y < 2 powi (expo y + 1)"
    by auto
  have le: "expo x \<le> expo y"
  proof (rule ccontr)
    assume "\<not> expo x \<le> expo y"
    then have "(2::real) powi (expo y + 1) \<le> 2 powi expo x"
      by (intro powi_mono2) simp
    then show False using bx(1) by'(2) assms(2) by linarith
  qed
  show ?thesis
  proof (cases "expo x = expo y")
    case True
    have "x / 2 powi (expo y - 52) \<le> y / 2 powi (expo y - 52)"
      using assms(2) by (simp add: divide_right_mono)
    then have "round_even (x / 2 powi (expo y - 52)) \<le> round_even (y / 2 powi (expo y - 52))"
      by (rule round_even_mono)
    then show ?thesis
      by (simp add: double_pos [OF assms(1)] double_pos [OF y] True)
  next
    case False
    then have "expo x + 1 \<le> expo y" using le by simp
    then have "(2::real) powi (expo x + 1) \<le> 2 powi expo y"
      by (intro powi_mono2)
    then show ?thesis
      using double_range [OF assms(1)] double_range [OF y] by linarith
  qed
qed

lemma double_mono:
  assumes "x \<le> y"
  shows "double x \<le> double y"
proof -
  consider "0 < x" | "x = 0" | "x < 0" "0 \<le> y" | "x < 0" "y < 0"
    by linarith
  then show ?thesis
  proof cases
    case 1
    then show ?thesis using assms by (rule double_mono_pos)
  next
    case 2
    then show ?thesis using assms double_nonneg [of y] by (simp add: double_zero)
  next
    case 3
    have "0 \<le> double (- x)" using 3(1) by (intro double_nonneg) simp
    then have "double x \<le> 0" using double_minus [of x] by simp
    then show ?thesis using double_nonneg [OF 3(2)] by linarith
  next
    case 4
    have "double (- y) \<le> double (- x)"
      using 4 assms by (intro double_mono_pos) simp_all
    then show ?thesis by (simp add: double_minus)
  qed
qed



text \<open>The doubles that the examples use.\<close>

lemma double_3_10: "double (3 / 10) = 5404319552844595 / 18014398509481984"
  using double_eval [of "3 / 10" "- 2"]
  by (simp add: round_even_def power_int_minus)

lemma double_1_5: "double (1 / 5) = 3602879701896397 / 18014398509481984"
  using double_eval [of "1 / 5" "- 3"]
  by (simp add: round_even_def power_int_minus)

lemma double_3_20: "double (3 / 20) = 5404319552844595 / 36028797018963968"
  using double_eval [of "3 / 20" "- 3"]
  by (simp add: round_even_def power_int_minus)

lemma double_1_10: "double (1 / 10) = 3602879701896397 / 36028797018963968"
  using double_eval [of "1 / 10" "- 4"]
  by (simp add: round_even_def power_int_minus)

lemma double_1_20: "double (1 / 20) = 3602879701896397 / 72057594037927936"
  using double_eval [of "1 / 20" "- 5"]
  by (simp add: round_even_def power_int_minus)

lemma double_1_50: "double (1 / 50) = 5764607523034235 / 288230376151711744"
  using double_eval [of "1 / 50" "- 6"]
  by (simp add: round_even_def power_int_minus)

lemma double_7_10: "double (7 / 10) = 3152519739159347 / 4503599627370496"
  using double_eval [of "7 / 10" "- 1"]
  by (simp add: round_even_def power_int_minus)

lemma double_13_10: "double (13 / 10) = 5854679515581645 / 4503599627370496"
  using double_eval [of "13 / 10" 0]
  by (simp add: round_even_def power_int_minus)

lemma double_1_2: "double (1 / 2) = 1 / 2"
  using double_eval [of "1 / 2" "- 1"]
  by (simp add: round_even_def power_int_minus)

lemma double_1_1: "double 1 = 1"
  using double_eval [of 1 0]
  by (simp add: round_even_def power_int_minus)

lemma double_8999999999999999_10000000000000000:
  "double (8999999999999999 / 10000000000000000) =
     2026619832316723 / 2251799813685248"
  using double_eval [of "8999999999999999 / 10000000000000000" "- 1"]
  by (simp add: round_even_def power_int_minus)

lemma double_13_20: "double (13 / 20) = 5854679515581645 / 9007199254740992"
  using double_eval [of "13 / 20" "- 1"]
  by (simp add: round_even_def power_int_minus)

lemma double_31_50: "double (31 / 50) = 5584463537939415 / 9007199254740992"
  using double_eval [of "31 / 50" "- 1"]
  by (simp add: round_even_def power_int_minus)

lemma double_13_25: "double (13 / 25) = 1170935903116329 / 2251799813685248"
  using double_eval [of "13 / 25" "- 1"]
  by (simp add: round_even_def power_int_minus)

lemma double_7999999999999999_10000000000000000:
  "double (7999999999999999 / 10000000000000000) =
     7205759403792793 / 9007199254740992"
  using double_eval [of "7999999999999999 / 10000000000000000" "- 1"]
  by (simp add: round_even_def power_int_minus)

lemma double_2_5: "double (2 / 5) = 3602879701896397 / 9007199254740992"
  using double_eval [of "2 / 5" "- 2"]
  by (simp add: round_even_def power_int_minus)

lemma double_12610078956637389_18014398509481984:
  "double (12610078956637389 / 18014398509481984) =
     3152519739159347 / 4503599627370496"
  using double_eval [of "12610078956637389 / 18014398509481984" "- 1"]
  by (simp add: round_even_def power_int_minus)

lemma double_3_5: "double (3 / 5) = 5404319552844595 / 9007199254740992"
  using double_eval [of "3 / 5" "- 1"]
  by (simp add: round_even_def power_int_minus)

lemma double_16212958658533785_18014398509481984:
  "double (16212958658533785 / 18014398509481984) =
     2026619832316723 / 2251799813685248"
  using double_eval [of "16212958658533785 / 18014398509481984" "- 1"]
  by (simp add: round_even_def power_int_minus)

lemma double_4_5: "double (4 / 5) = 3602879701896397 / 4503599627370496"
  using double_eval [of "4 / 5" "- 1"]
  by (simp add: round_even_def power_int_minus)

lemma double_19815838360430183_18014398509481984:
  "double (19815838360430183 / 18014398509481984) =
     2476979795053773 / 2251799813685248"
  using double_eval [of "19815838360430183 / 18014398509481984" 0]
  by (simp add: round_even_def power_int_minus)

lemma double_149879795598890107_288230376151711744:
  "double (149879795598890107 / 288230376151711744) =
     1170935903116329 / 2251799813685248"
  using double_eval [of "149879795598890107 / 288230376151711744" "- 1"]
  by (simp add: round_even_def power_int_minus)

lemma double_22337854151757661_36028797018963968:
  "double (22337854151757661 / 36028797018963968) =
     5584463537939415 / 9007199254740992"
  using double_eval [of "22337854151757661 / 36028797018963968" "- 1"]
  by (simp add: round_even_def power_int_minus)

lemma double_28823037615171173_36028797018963968:
  "double (28823037615171173 / 36028797018963968) =
     7205759403792793 / 9007199254740992"
  using double_eval [of "28823037615171173 / 36028797018963968" "- 1"]
  by (simp add: round_even_def power_int_minus)

lemma double_23418718062326579_36028797018963968:
  "double (23418718062326579 / 36028797018963968) =
     5854679515581645 / 9007199254740992"
  using double_eval [of "23418718062326579 / 36028797018963968" "- 1"]
  by (simp add: round_even_def power_int_minus)

lemma double_4_3: "double (4 / 3) = 6004799503160661 / 4503599627370496"
  using double_eval [of "4 / 3" 0]
  by (simp add: round_even_def power_int_minus)

lemma double_5404319552844595_18014398509481984:
  "double (5404319552844595 / 18014398509481984) =
     5404319552844595 / 18014398509481984"
  using double_eval [of "5404319552844595 / 18014398509481984" "- 2"]
  by (simp add: round_even_def power_int_minus)

lemma double_3602879701896397_18014398509481984:
  "double (3602879701896397 / 18014398509481984) =
     3602879701896397 / 18014398509481984"
  using double_eval [of "3602879701896397 / 18014398509481984" "- 3"]
  by (simp add: round_even_def power_int_minus)

lemma double_5404319552844595_36028797018963968:
  "double (5404319552844595 / 36028797018963968) =
     5404319552844595 / 36028797018963968"
  using double_eval [of "5404319552844595 / 36028797018963968" "- 3"]
  by (simp add: round_even_def power_int_minus)

lemma double_3602879701896397_36028797018963968:
  "double (3602879701896397 / 36028797018963968) =
     3602879701896397 / 36028797018963968"
  using double_eval [of "3602879701896397 / 36028797018963968" "- 4"]
  by (simp add: round_even_def power_int_minus)

lemma double_3602879701896397_72057594037927936:
  "double (3602879701896397 / 72057594037927936) =
     3602879701896397 / 72057594037927936"
  using double_eval [of "3602879701896397 / 72057594037927936" "- 5"]
  by (simp add: round_even_def power_int_minus)

lemma double_5764607523034235_288230376151711744:
  "double (5764607523034235 / 288230376151711744) =
     5764607523034235 / 288230376151711744"
  using double_eval [of "5764607523034235 / 288230376151711744" "- 6"]
  by (simp add: round_even_def power_int_minus)

lemma double_3152519739159347_4503599627370496:
  "double (3152519739159347 / 4503599627370496) =
     3152519739159347 / 4503599627370496"
  using double_eval [of "3152519739159347 / 4503599627370496" "- 1"]
  by (simp add: round_even_def power_int_minus)

lemma double_5854679515581645_4503599627370496:
  "double (5854679515581645 / 4503599627370496) =
     5854679515581645 / 4503599627370496"
  using double_eval [of "5854679515581645 / 4503599627370496" 0]
  by (simp add: round_even_def power_int_minus)

lemma double_2026619832316723_2251799813685248:
  "double (2026619832316723 / 2251799813685248) =
     2026619832316723 / 2251799813685248"
  using double_eval [of "2026619832316723 / 2251799813685248" "- 1"]
  by (simp add: round_even_def power_int_minus)

lemma double_5854679515581645_9007199254740992:
  "double (5854679515581645 / 9007199254740992) =
     5854679515581645 / 9007199254740992"
  using double_eval [of "5854679515581645 / 9007199254740992" "- 1"]
  by (simp add: round_even_def power_int_minus)

lemma double_5584463537939415_9007199254740992:
  "double (5584463537939415 / 9007199254740992) =
     5584463537939415 / 9007199254740992"
  using double_eval [of "5584463537939415 / 9007199254740992" "- 1"]
  by (simp add: round_even_def power_int_minus)

lemma double_1170935903116329_2251799813685248:
  "double (1170935903116329 / 2251799813685248) =
     1170935903116329 / 2251799813685248"
  using double_eval [of "1170935903116329 / 2251799813685248" "- 1"]
  by (simp add: round_even_def power_int_minus)

lemma double_7205759403792793_9007199254740992:
  "double (7205759403792793 / 9007199254740992) =
     7205759403792793 / 9007199254740992"
  using double_eval [of "7205759403792793 / 9007199254740992" "- 1"]
  by (simp add: round_even_def power_int_minus)

lemma double_3602879701896397_9007199254740992:
  "double (3602879701896397 / 9007199254740992) =
     3602879701896397 / 9007199254740992"
  using double_eval [of "3602879701896397 / 9007199254740992" "- 2"]
  by (simp add: round_even_def power_int_minus)

lemma double_5404319552844595_9007199254740992:
  "double (5404319552844595 / 9007199254740992) =
     5404319552844595 / 9007199254740992"
  using double_eval [of "5404319552844595 / 9007199254740992" "- 1"]
  by (simp add: round_even_def power_int_minus)

lemma double_3602879701896397_4503599627370496:
  "double (3602879701896397 / 4503599627370496) =
     3602879701896397 / 4503599627370496"
  using double_eval [of "3602879701896397 / 4503599627370496" "- 1"]
  by (simp add: round_even_def power_int_minus)

lemma double_2476979795053773_2251799813685248:
  "double (2476979795053773 / 2251799813685248) =
     2476979795053773 / 2251799813685248"
  using double_eval [of "2476979795053773 / 2251799813685248" 0]
  by (simp add: round_even_def power_int_minus)

lemma double_6004799503160661_4503599627370496:
  "double (6004799503160661 / 4503599627370496) =
     6004799503160661 / 4503599627370496"
  using double_eval [of "6004799503160661 / 4503599627370496" 0]
  by (simp add: round_even_def power_int_minus)

lemmas float_eval = double_3_10 double_1_5 double_3_20 double_1_10 double_1_20 double_1_50
  double_7_10 double_13_10 double_1_2 double_1_1 double_8999999999999999_10000000000000000
  double_13_20 double_31_50 double_13_25 double_7999999999999999_10000000000000000 double_2_5
  double_12610078956637389_18014398509481984 double_3_5
  double_16212958658533785_18014398509481984 double_4_5
  double_19815838360430183_18014398509481984 double_149879795598890107_288230376151711744
  double_22337854151757661_36028797018963968 double_28823037615171173_36028797018963968
  double_23418718062326579_36028797018963968 double_4_3
  double_5404319552844595_18014398509481984 double_3602879701896397_18014398509481984
  double_5404319552844595_36028797018963968 double_3602879701896397_36028797018963968
  double_3602879701896397_72057594037927936 double_5764607523034235_288230376151711744
  double_3152519739159347_4503599627370496 double_5854679515581645_4503599627370496
  double_2026619832316723_2251799813685248 double_5854679515581645_9007199254740992
  double_5584463537939415_9007199254740992 double_1170935903116329_2251799813685248
  double_7205759403792793_9007199254740992 double_3602879701896397_9007199254740992
  double_5404319552844595_9007199254740992 double_3602879701896397_4503599627370496
  double_2476979795053773_2251799813685248 double_6004799503160661_4503599627370496

subsection \<open>The lightweight score for each number of entries\<close>

lemma score_simple_per_entry: "score_simple clog = per_entry_score (length clog)"
proof -
  consider "length clog = 0" | "length clog = 1" | "length clog = 2" | "length clog = 3"
    | "4 \<le> length clog"
    by linarith
  then show ?thesis
  proof cases
    case 1
    then show ?thesis by (simp add: score_simple_def per_entry_score_def float_eval double_zero)
  next
    case 2
    then show ?thesis by (simp add: score_simple_def per_entry_score_def float_eval)
  next
    case 3
    then show ?thesis by (simp add: score_simple_def per_entry_score_def float_eval)
  next
    case 4
    then show ?thesis by (simp add: score_simple_def per_entry_score_def float_eval)
  next
    case 5
    then have "4 / 5 \<le> real (length clog) / 5" by simp
    then have "double (4 / 5) \<le> double (real (length clog) / 5)" by (rule double_mono)
    then have "1 \<le> double (real (length clog) / 5) + double (3 / 10)"
      by (simp add: float_eval)
    then have "double 1 \<le> double (double (real (length clog) / 5) + double (3 / 10))"
      by (rule double_mono)
    then show ?thesis
      using 5 by (auto simp: score_simple_def per_entry_score_def float_eval)
  qed
qed

lemma score_simple_values:
  "score_simple [] = double (3 / 10)" "score_simple [a] = 1 / 2"
  "score_simple [a, b] = double (7 / 10)"
  by (simp_all add: score_simple_per_entry per_entry_score_def)

lemma score_simple_bounds: "double (3 / 10) \<le> score_simple clog \<and> score_simple clog \<le> 1"
  by (simp add: score_simple_per_entry per_entry_score_def float_eval)

section \<open>Evaluation on concrete texts\<close>

lemmas unicode_eval = is_space_def is_digit_def is_word_def is_alnum_def space_table_def
  digit_table_def alnum_table_0_def alnum_table_1_def alnum_table_2_def alnum_table_3_def
  alnum_table_4_def alnum_table_5_def alnum_table_6_def alnum_table_7_def alnum_table_8_def
  alnum_table_9_def alnum_table_10_def alnum_table_11_def alnum_table_12_def alnum_table_13_def
  alnum_table_14_def alnum_table_15_def

lemmas rx_eval = match_at_def re_search_def re_sub_def re_split_def re_match_def group_text_def
  word_before_def word_after_def strip_def

lemmas corrector_eval = correct_text_def rule_stages_def rule_tables_def tech_terms_def
  ending_fixes_def naturalness_rules_def filler_patterns_def punctuation_rules_def
  repetition_patterns_def space_or_end_def kana_or_latin_def cleanup_def score_simple_values
  label_tech_def label_ending_def label_repetition_def label_filler_def label_natural_def
  label_punct_def

lemmas segment_eval = process_segments_def parse_timestamp_def digits_def time_pattern_def
  header_body_def header_pattern_def ts_pattern_def write_output_def write_segment_def
  header_text_def

text \<open>The classes of the characters that occur in the example texts.\<close>

lemma class_A:
  "is_space 0xA = True" "is_digit 0xA = False" "is_word 0xA = False"
  by (simp_all add: unicode_eval)

lemma class_20:
  "is_space 0x20 = True" "is_digit 0x20 = False" "is_word 0x20 = False"
  by (simp_all add: unicode_eval)

lemma class_2D:
  "is_space 0x2D = False" "is_digit 0x2D = False" "is_word 0x2D = False"
  by (simp_all add: unicode_eval)

lemma class_30:
  "is_space 0x30 = False" "is_digit 0x30 = True" "is_word 0x30 = True"
  by (simp_all add: unicode_eval)

lemma class_31:
  "is_space 0x31 = False" "is_digit 0x31 = True" "is_word 0x31 = True"
  by (simp_all add: unicode_eval)

lemma class_32:
  "is_space 0x32 = False" "is_digit 0x32 = True" "is_word 0x32 = True"
  by (simp_all add: unicode_eval)

lemma class_33:
  "is_space 0x33 = False" "is_digit 0x33 = True" "is_word 0x33 = True"
  by (simp_all add: unicode_eval)

lemma class_34:
  "is_space 0x34 = False" "is_digit 0x34 = True" "is_word 0x34 = True"
  by (simp_all add: unicode_eval)

lemma class_35:
  "is_space 0x35 = False" "is_digit 0x35 = True" "is_word 0x35 = True"
  by (simp_all add: unicode_eval)

lemma class_36:
  "is_space 0x36 = False" "is_digit 0x36 = True" "is_word 0x36 = True"
  by (simp_all add: unicode_eval)

lemma class_37:
  "is_space 0x37 = False" "is_digit 0x37 = True" "is_word 0x37 = True"
  by (simp_all add: unicode_eval)

lemma class_38:
  "is_space 0x38 = False" "is_digit 0x38 = True" "is_word 0x38 = True"
  by (simp_all add: unicode_eval)

lemma class_39:
  "is_space 0x39 = False" "is_digit 0x39 = True" "is_word 0x39 = True"
  by (simp_all add: unicode_eval)

lemma class_3A:
  "is_space 0x3A = False" "is_digit 0x3A = False" "is_word 0x3A = False"
  by (simp_all add: unicode_eval)

lemma class_4C:
  "is_space 0x4C = False" "is_digit 0x4C = False" "is_word 0x4C = True"
  by (simp_all add: unicode_eval)

lemma class_4D:
  "is_space 0x4D = False" "is_digit 0x4D = False" "is_word 0x4D = True"
  by (simp_all add: unicode_eval)

lemma class_5B:
  "is_space 0x5B = False" "is_digit 0x5B = False" "is_word 0x5B = False"
  by (simp_all add: unicode_eval)

lemma class_5D:
  "is_space 0x5D = False" "is_digit 0x5D = False" "is_word 0x5D = False"
  by (simp_all add: unicode_eval)

lemma class_61:
  "is_space 0x61 = False" "is_digit 0x61 = False" "is_word 0x61 = True"
  by (simp_all add: unicode_eval)

lemma class_62:
  "is_space 0x62 = False" "is_digit 0x62 = False" "is_word 0x62 = True"
  by (simp_all add: unicode_eval)

lemma class_63:
  "is_space 0x63 = False" "is_digit 0x63 = False" "is_word 0x63 = True"
  by (simp_all add: unicode_eval)

lemma class_69:
  "is_space 0x69 = False" "is_digit 0x69 = False" "is_word 0x69 = True"
  by (simp_all add: unicode_eval)

lemma class_6E:
  "is_space 0x6E = False" "is_digit 0x6E = False" "is_word 0x6E = True"
  by (simp_all add: unicode_eval)

lemma class_6F:
  "is_space 0x6F = False" "is_digit 0x6F = False" "is_word 0x6F = True"
  by (simp_all add: unicode_eval)

lemma class_72:
  "is_space 0x72 = False" "is_digit 0x72 = False" "is_word 0x72 = True"
  by (simp_all add: unicode_eval)

lemma class_74:
  "is_space 0x74 = False" "is_digit 0x74 = False" "is_word 0x74 = True"
  by (simp_all add: unicode_eval)

lemma class_78:
  "is_space 0x78 = False" "is_digit 0x78 = False" "is_word 0x78 = True"
  by (simp_all add: unicode_eval)

lemma class_3002:
  "is_space 0x3002 = False" "is_digit 0x3002 = False" "is_word 0x3002 = False"
  by (simp_all add: unicode_eval)

lemma class_3044:
  "is_space 0x3044 = False" "is_digit 0x3044 = False" "is_word 0x3044 = True"
  by (simp_all add: unicode_eval)

lemma class_3048:
  "is_space 0x3048 = False" "is_digit 0x3048 = False" "is_word 0x3048 = True"
  by (simp_all add: unicode_eval)

lemma class_304B:
  "is_space 0x304B = False" "is_digit 0x304B = False" "is_word 0x304B = True"
  by (simp_all add: unicode_eval)

lemma class_3054:
  "is_space 0x3054 = False" "is_digit 0x3054 = False" "is_word 0x3054 = True"
  by (simp_all add: unicode_eval)

lemma class_3056:
  "is_space 0x3056 = False" "is_digit 0x3056 = False" "is_word 0x3056 = True"
  by (simp_all add: unicode_eval)

lemma class_3057:
  "is_space 0x3057 = False" "is_digit 0x3057 = False" "is_word 0x3057 = True"
  by (simp_all add: unicode_eval)

lemma class_3059:
  "is_space 0x3059 = False" "is_digit 0x3059 = False" "is_word 0x3059 = True"
  by (simp_all add: unicode_eval)

lemma class_306A:
  "is_space 0x306A = False" "is_digit 0x306A = False" "is_word 0x306A = True"
  by (simp_all add: unicode_eval)

lemma class_307E:
  "is_space 0x307E = False" "is_digit 0x307E = False" "is_word 0x307E = True"
  by (simp_all add: unicode_eval)

lemma class_3093:
  "is_space 0x3093 = False" "is_digit 0x3093 = False" "is_word 0x3093 = True"
  by (simp_all add: unicode_eval)

lemma class_30A8:
  "is_space 0x30A8 = False" "is_digit 0x30A8 = False" "is_word 0x30A8 = True"
  by (simp_all add: unicode_eval)

lemma class_30AF:
  "is_space 0x30AF = False" "is_digit 0x30AF = False" "is_word 0x30AF = True"
  by (simp_all add: unicode_eval)

lemma class_30C3:
  "is_space 0x30C3 = False" "is_digit 0x30C3 = False" "is_word 0x30C3 = True"
  by (simp_all add: unicode_eval)

lemma class_30DD:
  "is_space 0x30DD = False" "is_digit 0x30DD = False" "is_word 0x30DD = True"
  by (simp_all add: unicode_eval)

lemma class_30E0:
  "is_space 0x30E0 = False" "is_digit 0x30E0 = False" "is_word 0x30E0 = True"
  by (simp_all add: unicode_eval)

lemma class_30EB:
  "is_space 0x30EB = False" "is_digit 0x30EB = False" "is_word 0x30EB = True"
  by (simp_all add: unicode_eval)

lemma class_30FC:
  "is_space 0x30FC = False" "is_digit 0x30FC = False" "is_word 0x30FC = True"
  by (simp_all add: unicode_eval)

lemma class_601D:
  "is_space 0x601D = False" "is_digit 0x601D = False" "is_word 0x601D = True"
  by (simp_all add: unicode_eval)

lemma class_7533:
  "is_space 0x7533 = False" "is_digit 0x7533 = False" "is_word 0x7533 = True"
  by (simp_all add: unicode_eval)

lemmas class_eval = class_A class_20 class_2D class_30 class_31 class_32 class_33 class_34 class_35 class_36 class_37 class_38 class_39 class_3A class_4C class_4D class_5B class_5D class_61 class_62 class_63 class_69 class_6E class_6F class_72 class_74 class_78 class_3002 class_3044 class_3048 class_304B class_3054 class_3056 class_3057 class_3059 class_306A class_307E class_3093 class_30A8 class_30AF class_30C3 class_30DD class_30E0 class_30EB class_30FC class_601D class_7533

lemma asc_LLM: "asc ''LLM'' = [0x4C, 0x4C, 0x4D]"
  by (simp add: asc_def)

subsection \<open>The example of the specification\<close>

lemma example_split:
  "re_split header_pattern example_input =
     [[], [0x5B, 0x30, 0x3A, 0x30, 0x30, 0x3A, 0x30, 0x31, 0x20, 0x2D, 0x20, 0x30, 0x3A, 0x30, 0x30, 0x3A, 0x30, 0x35, 0x5D], [0x20, 0x7533, 0x3057, 0x3059, 0x3054, 0x3056, 0x3044, 0x3059]]"
  by (simp add: example_input_def rx_eval segment_eval class_eval)

lemma example_correct_text:
  "correct_text [0x7533, 0x3057, 0x3059, 0x3054, 0x3056, 0x3044, 0x3059] = ([0x7533, 0x3057, 0x3059, 0x3054, 0x3056, 0x3044, 0x307E, 0x3059], [label_ending @ [0x3054, 0x3056, 0x3044, 0x307E, 0x3059]], 1 / 2)"
  by (simp add: rx_eval corrector_eval class_eval)

lemma example_timestamp:
  "parse_timestamp [0x5B, 0x30, 0x3A, 0x30, 0x30, 0x3A, 0x30, 0x31, 0x20, 0x2D, 0x20, 0x30, 0x3A, 0x30, 0x30, 0x3A, 0x30, 0x35, 0x5D] = ([0x30, 0x3A, 0x30, 0x30, 0x3A, 0x30, 0x31], [0x30, 0x3A, 0x30, 0x30, 0x3A, 0x30, 0x35])"
  by (simp add: rx_eval segment_eval class_eval)

lemma example_segments:
  "process_segments example_input =
     [\<lparr>seg_id = 1, start_time = [0x30, 0x3A, 0x30, 0x30, 0x3A, 0x30, 0x31], end_time = [0x30, 0x3A, 0x30, 0x30, 0x3A, 0x30, 0x35],
       original = [0x7533, 0x3057, 0x3059, 0x3054, 0x3056, 0x3044, 0x3059], corrected = [0x7533, 0x3057, 0x3059, 0x3054, 0x3056, 0x3044, 0x307E, 0x3059],
       corrections = [label_ending @ [0x3054, 0x3056, 0x3044, 0x307E, 0x3059]], quality = 1 / 2\<rparr>]"
proof -
  have "strip [0x20, 0x7533, 0x3057, 0x3059, 0x3054, 0x3056, 0x3044, 0x3059] = [0x7533, 0x3057, 0x3059, 0x3054, 0x3056, 0x3044, 0x3059]"
    by (simp add: strip_def class_eval)
  then show ?thesis
    by (simp add: process_segments_def example_split example_correct_text example_timestamp)
qed

lemma example_written: "write_output (process_segments example_input) = example_output"
  by (simp add: example_segments write_output_def write_segment_def header_text_def example_output_def)

text \<open>
  Claim C4, as the specification states it: for the example input the pipeline writes
  the header line followed by both verbs repaired, each with a full stop. The program
  does not: the first verb is followed by a kana character, not by whitespace or the end
  of the text, so its ending repair does not apply, and the text the program writes
  differs from the one the specification gives.
\<close>

theorem example_output_counterexample:
  "write_output (process_segments example_input) \<noteq> example_spec_output"
  by (simp add: example_written example_output_def example_spec_output_def)

text \<open>
  Claim C4, amended: for the example input the pipeline writes the header line followed
  by the text in which only the second verb is repaired, with no full stop, and the
  correction log of the one segment is exactly one ending-fix entry (for the second verb)
  and no punctuation entry.
\<close>

theorem example_output_amended:
  "write_output (process_segments example_input) = example_output \<and>
   map corrections (process_segments example_input) = [[label_ending @ [0x3054, 0x3056, 0x3044, 0x307E, 0x3059]]]"
proof
  show "write_output (process_segments example_input) = example_output"
    by (rule example_written)
  show "map corrections (process_segments example_input) = [[label_ending @ [0x3054, 0x3056, 0x3044, 0x307E, 0x3059]]]"
    by (simp add: example_segments)
qed

subsection \<open>The lightweight score\<close>

lemma correct_text_quality:
  "snd (snd (correct_text text)) = score_simple (fst (snd (correct_text text)))"
  by (simp add: correct_text_def split: prod.splits)

lemma two_endings_correct_text:
  "correct_text two_endings =
     ([0x7533, 0x3057, 0x307E, 0x3059, 0x20, 0x601D, 0x3044, 0x307E, 0x3059], [label_ending @ [0x7533, 0x3057, 0x307E, 0x3059], label_ending @ [0x601D, 0x3044, 0x307E, 0x3059]],
      double (7 / 10))"
  by (simp add: two_endings_def rx_eval corrector_eval class_eval)

text \<open>
  Three entries show the rounding of the float sum: \<open>3 / 5 + 0.3\<close> is the double just
  below 0.9.
\<close>

lemma three_entries_score:
  "score_simple [a, b, c] = double (8999999999999999 / 10000000000000000)"
  "score_simple [a, b, c] < 9 / 10"
  by (simp_all add: score_simple_per_entry per_entry_score_def float_eval)

text \<open>
  Claim C6, as the specification states it: the lightweight score is 0.3 plus 0.2 for
  each distinct category, capped at 1. For the text with two truncated verbs the log has
  two entries of the one category ending-fix; the program scores 0.7, the formula of the
  specification 0.5, a difference that is not one of rounding.
\<close>

theorem distinct_category_score_counterexample:
  "1 / 10 < \<bar>snd (snd (correct_text two_endings)) -
            spec_simple_score (fst (snd (correct_text two_endings)))\<bar>"
  by (simp add: two_endings_correct_text spec_simple_score_def category_of_def label_ending_def
      float_eval)

lemma stage_append: "stage (rs @ rs') acc = stage rs' (stage rs acc)"
  by (induction rs acc rule: stage.induct) simp_all

lemma stage_Nil: "stage [] acc = acc"
  by (cases acc) simp

lemma stages_concat: "foldl (\<lambda>acc rules. stage rules acc) acc tables = stage (concat tables) acc"
  by (induction tables arbitrary: acc) (simp_all add: stage_append stage_Nil)

lemma stage_matched: "snd (stage rs (t, clog)) = clog @ matched rs t"
  by (induction rs arbitrary: t clog) auto

lemma correct_text_log: "fst (snd (correct_text text)) = matched (concat rule_tables) text"
  using stage_matched [of "concat rule_tables" "text" "[]"]
  by (auto simp: correct_text_def rule_stages_def stages_concat split: prod.splits)

text \<open>
  Claim C6, amended: for every input the correction log has exactly one entry for each
  rule pattern that matches (each searched in the text as the patterns before it have
  rewritten it), so two matching patterns of one category give two entries; and the
  lightweight score is the float \<open>min(1.0, n / 5 + 0.3)\<close> for the number \<open>n\<close> of
  entries: 0.3, 0.5, 0.7 and 0.8999999999999999 for no, one, two and three entries, and
  1.0 for four or more.
\<close>

theorem simple_score_per_entry:
  "fst (snd (correct_text text)) = matched (concat rule_tables) text \<and>
   snd (snd (correct_text text)) = per_entry_score (length (matched (concat rule_tables) text))"
  using correct_text_log [of "text"]
  by (simp add: correct_text_quality score_simple_per_entry)

theorem simple_score_per_entry_witness:
  "matched (concat rule_tables) two_endings =
     [label_ending @ [0x7533, 0x3057, 0x307E, 0x3059], label_ending @ [0x601D, 0x3044, 0x307E, 0x3059]] \<and>
   map category_of (matched (concat rule_tables) two_endings) = [[0x8A9E, 0x5C3E, 0x4FEE, 0x6B63], [0x8A9E, 0x5C3E, 0x4FEE, 0x6B63]] \<and>
   snd (snd (correct_text two_endings)) = double (7 / 10)"
proof -
  from simple_score_per_entry [of two_endings]
  have "matched (concat rule_tables) two_endings = fst (snd (correct_text two_endings))"
    by simp
  then show ?thesis
    by (simp add: two_endings_correct_text category_of_def label_ending_def)
qed

text \<open>
  Claim C10: for every input the quality that \<open>correct_text\<close> returns is at least 0.3,
  and it is exactly 0.3 when no correction was applied (0.3 is the float literal of the
  source).
\<close>

theorem simple_score_at_least_base:
  "double (3 / 10) \<le> snd (snd (correct_text text)) \<and>
   (fst (snd (correct_text text)) = [] \<longrightarrow> snd (snd (correct_text text)) = double (3 / 10))"
  by (simp add: correct_text_quality score_simple_bounds score_simple_values)

lemma plain_correct_text: "correct_text [0x78] = ([0x78], [], double (3 / 10))"
  by (simp add: rx_eval corrector_eval class_eval)

theorem simple_score_at_least_base_witness:
  "fst (snd (correct_text [0x78])) = [] \<and> snd (snd (correct_text [0x78])) = double (3 / 10)"
  using simple_score_at_least_base [of "[0x78]"] by (simp add: plain_correct_text)

subsection \<open>The refined score\<close>

lemma realistic_score_bounds:
  "0 \<le> calculate_realistic_quality_score orig corr corrs \<and>
   calculate_realistic_quality_score orig corr corrs \<le> 1"
  by (simp add: calculate_realistic_quality_score_def Let_def)

text \<open>
  Claim C1: for every input the quality score of the lightweight scorer (in
  \<open>correct_text\<close>, and so in every segment of \<open>process_segments\<close>) and the score of the
  refined scorer lie in the closed interval from 0 to 1.
\<close>

theorem quality_in_unit_interval:
  "0 \<le> snd (snd (correct_text text)) \<and> snd (snd (correct_text text)) \<le> 1 \<and>
   0 \<le> calculate_realistic_quality_score orig corr corrs \<and>
   calculate_realistic_quality_score orig corr corrs \<le> 1"
proof -
  have "double (3 / 10) \<le> score_simple (fst (snd (correct_text text)))"
    and "score_simple (fst (snd (correct_text text))) \<le> 1"
    using score_simple_bounds by blast+
  moreover have "0 \<le> double (3 / 10)"
    by (rule double_nonneg) simp
  ultimately have "0 \<le> snd (snd (correct_text text))" and "snd (snd (correct_text text)) \<le> 1"
    by (simp_all add: correct_text_quality)
  then show ?thesis
    using realistic_score_bounds by blast
qed

theorem quality_in_unit_interval_witness:
  "0 \<le> snd (snd (correct_text two_endings)) \<and> snd (snd (correct_text two_endings)) \<le> 1 \<and>
   0 \<le> calculate_realistic_quality_score two_endings two_endings [] \<and>
   calculate_realistic_quality_score two_endings two_endings [] \<le> 1"
  by (rule quality_in_unit_interval)


lemma technical_terms_weight: "weight_of (asc ''technical_terms'') = double (2 / 10)"
  by (simp add: weight_of_def correction_weights_def asc_def)

lemma abc_length: "length (asc ''abc'') = 3"
  by (simp add: asc_def)

lemma abc_detectors:
  "\<not> detect_obvious_improvements (asc ''abc'') (asc ''abc'')"
  "\<not> detect_deterioration (asc ''abc'') (asc ''abc'')"
  "\<not> spec_deterioration (asc ''abc'') (asc ''abc'')"
  by (simp_all add: detect_obvious_improvements_def improvements_def detect_deterioration_def
      spec_deterioration_def truncated_phrase_def keyword_lost_def important_words_def
      arigatou_def rigatou_def asc_def rx_eval)

text \<open>
  An unchanged text with one technical-term correction shows the rounding of the float
  sums: \<open>0.5 + 0.2 + 0.1\<close> is the double just below 0.8.
\<close>

lemma technical_terms_score:
  "calculate_realistic_quality_score (asc ''abc'') (asc ''abc'') [asc ''technical_terms''] =
     double (7999999999999999 / 10000000000000000)"
  "calculate_realistic_quality_score (asc ''abc'') (asc ''abc'') [asc ''technical_terms''] < 8 / 10"
  by (simp_all add: calculate_realistic_quality_score_def Let_def technical_terms_weight
      abc_detectors length_ratio_def abc_length float_eval)






subsection \<open>The LLM stage\<close>

lemma fallback_without_reply:
  assumes "fst (call_nova_micro client acc (create_correction_prompt (fst (correct_text text)))) = None"
  shows "fst (enhanced_correct_text client acc text) = correct_text text"
  using assms by (auto simp: enhanced_correct_text_def split: prod.splits option.splits)

lemma no_client_no_reply: "call_nova_micro None acc prompt = (None, acc)"
  by (simp add: call_nova_micro_def)

lemma raised_no_reply: "client prompt = Raised \<Longrightarrow> call_nova_micro (Some client) acc prompt = (None, acc)"
  by (simp add: call_nova_micro_def)

lemma boost_with_reply:
  assumes "correct_text text = (rule_corrected, rule_corrections, rule_quality)"
    and "needs_llm_correction rule_corrected"
    and "fst (call_nova_micro client acc (create_correction_prompt rule_corrected)) = Some reply"
    and "reply \<noteq> []" and "reply \<noteq> rule_corrected"
  shows "fst (enhanced_correct_text client acc text) =
           (reply, rule_corrections @ [label_llm],
            min 1 (double (rule_quality + double (3 / 10))))"
  using assms by (auto simp: enhanced_correct_text_def split: prod.splits option.splits)

lemma llm_term_split:
  "re_split header_pattern llm_term_input =
     [[], [0x5B, 0x30, 0x3A, 0x30, 0x30, 0x3A, 0x30, 0x31, 0x20, 0x2D, 0x20, 0x30, 0x3A, 0x30, 0x30, 0x3A, 0x30, 0x35, 0x5D], [0x20, 0x30A8, 0x30EB, 0x30A8, 0x30E0, 0x20, 0x30A8, 0x30DD, 0x30C3, 0x30AF]]"
  by (simp add: llm_term_input_def rx_eval segment_eval class_eval)

lemma llm_term_correct_text:
  "correct_text [0x30A8, 0x30EB, 0x30A8, 0x30E0, 0x20, 0x30A8, 0x30DD, 0x30C3, 0x30AF] = ([0x4C, 0x4C, 0x4D, 0x20, 0x30A8, 0x30DD, 0x30C3, 0x30AF], [label_tech @ [0x4C, 0x4C, 0x4D]], 1 / 2)"
  by (simp add: rx_eval corrector_eval class_eval)

lemma llm_term_gate: "needs_llm_correction [0x4C, 0x4C, 0x4D, 0x20, 0x30A8, 0x30DD, 0x30C3, 0x30AF]"
  by (simp add: needs_llm_correction_def complex_patterns_def rx_eval)

lemma llm_term_flag: "mentions_llm [label_tech @ [0x4C, 0x4C, 0x4D]]"
  by (simp add: mentions_llm_def label_tech_def)

text \<open>
  Claim C2 at a failing input: the unit's rule stage replaces the spelled-out term by
  LLM and logs it, the gate asks for the LLM, and no client is available. The result is
  the rule-corrected text with the rule-stage quality and log, as the claim says, but
  \<open>llm_used\<close> is true: the flag is computed as "some log entry contains LLM", which
  the rule stage's own entry does.
\<close>

theorem llm_used_without_llm:
  "process_segments_enhanced None no_accounting llm_term_input =
     ([\<lparr>seg_id = 1, start_time = [0x30, 0x3A, 0x30, 0x30, 0x3A, 0x30, 0x31], end_time = [0x30, 0x3A, 0x30, 0x30, 0x3A, 0x30, 0x35],
        original = [0x30A8, 0x30EB, 0x30A8, 0x30E0, 0x20, 0x30A8, 0x30DD, 0x30C3, 0x30AF], corrected = [0x4C, 0x4C, 0x4D, 0x20, 0x30A8, 0x30DD, 0x30C3, 0x30AF],
        corrections = [label_tech @ [0x4C, 0x4C, 0x4D]], quality = 1 / 2, llm_used = True\<rparr>],
      no_accounting)"
proof -
  have "strip [0x20, 0x30A8, 0x30EB, 0x30A8, 0x30E0, 0x20, 0x30A8, 0x30DD, 0x30C3, 0x30AF] = [0x30A8, 0x30EB, 0x30A8, 0x30E0, 0x20, 0x30A8, 0x30DD, 0x30C3, 0x30AF]"
    by (simp add: strip_def class_eval)
  moreover have "enhanced_correct_text None no_accounting [0x30A8, 0x30EB, 0x30A8, 0x30E0, 0x20, 0x30A8, 0x30DD, 0x30C3, 0x30AF] =
      (([0x4C, 0x4C, 0x4D, 0x20, 0x30A8, 0x30DD, 0x30C3, 0x30AF], [label_tech @ [0x4C, 0x4C, 0x4D]], 1 / 2), no_accounting)"
    by (simp add: enhanced_correct_text_def llm_term_correct_text llm_term_gate
        no_client_no_reply)
  ultimately show ?thesis
    by (simp add: process_segments_enhanced_def llm_term_split example_timestamp llm_term_flag)
qed

subsection \<open>Statistics of an empty run\<close>

lemma empty_text_no_segments:
  "process_segments [] = []" "extract_segments_improved [] = []"
  "fst (process_segments_enhanced client acc []) = []"
  by (simp_all add: process_segments_def process_segments_enhanced_def re_split_def
      extract_segments_improved_def enumerate_eq_zip strip_def re_match_def match_at_def
      header_body_def)

lemma empty_batch_stats:
  "save_batch_stats no_accounting [] =
     \<lparr>bs_total_segments = 0, bs_llm_usage = 0, bs_average_quality = 0,
      bs_high_quality_count = 0, bs_total_cost_jpy = 0, bs_input_tokens = 0,
      bs_output_tokens = 0\<rparr>"
  by (simp add: save_batch_stats_def no_accounting_def double_zero)

lemma empty_main_average: "main_average_quality (process_segments []) = Inl ZeroDivisionError"
  by (simp add: main_average_quality_def empty_text_no_segments)

text \<open>
  Claim C8 at a failing input: for an empty original transcript, from which no segment
  can be extracted, \<open>calculate_overall_metrics\<close> divides by the length of the original
  and raises \<open>ZeroDivisionError\<close> instead of returning zero statistics.
\<close>

theorem overall_metrics_division_by_zero:
  "extract_segments_improved [] = [] \<and> calculate_overall_metrics [] [] = Inl ZeroDivisionError"
  by (simp add: empty_text_no_segments calculate_overall_metrics_def)

section \<open>The segmenter\<close>

lemma group_of_whole_match:
  assumes "match_at (Grp 1 body) p s = Some (n, g)"
  shows "group_text g 1 = take n s"
proof -
  obtain p' s' g' rest where r: "run body (p, s, []) = (p', s', g') # rest"
    using assms by (cases "run body (p, s, [])") (auto simp: match_at_def)
  then show ?thesis
    using assms by (auto simp: match_at_def group_text_def)
qed

lemma split_from_concat: "concat (split_from (Grp 1 body) p acc s) = acc @ s"
proof (induction "Grp 1 body" p acc s rule: split_from.induct)
  case (1 p acc)
  then show ?case by simp
next
  case (2 p acc x xs)
  show ?case
  proof (cases "match_at (Grp 1 body) p (x # xs)")
    case None
    then show ?thesis using 2 by simp
  next
    case (Some m)
    obtain n g where m: "m = (n, g)" by (cases m)
    show ?thesis
    proof (cases "n = 0")
      case True
      then show ?thesis using 2 Some m by simp
    next
      case False
      have "group_text g 1 = take n (x # xs)"
        using group_of_whole_match Some m by blast
      then show ?thesis
        using 2(3) [OF Some [unfolded m] refl False] Some m False
        by (simp del: take_Suc_Cons drop_Suc_Cons)
    qed
  qed
qed

lemma re_split_concat: "concat (re_split header_pattern text) = text"
  using split_from_concat [of header_body None "[]" "text"]
  by (simp add: re_split_def header_pattern_def)

lemma segment_loop_ids:
  "map seg_id results = [1..<length results + 1] \<Longrightarrow>
   map seg_id (segment_loop ps results) = [1..<length (segment_loop ps results) + 1]"
  by (induction ps results rule: segment_loop.induct) (auto split: prod.splits)

lemma segment_loop_units:
  "map (\<lambda>s. (start_time s, end_time s, original s)) (segment_loop ps results) =
   map (\<lambda>s. (start_time s, end_time s, original s)) results @
   map (\<lambda>(h, c). (fst (parse_timestamp h), snd (parse_timestamp h), strip c))
     (filter (\<lambda>(h, c). strip c \<noteq> []) (units ps))"
  by (induction ps results rule: segment_loop.induct) (auto split: prod.splits)

lemma three_headers_split:
  "re_split header_pattern three_headers =
     [[0x69, 0x6E, 0x74, 0x72, 0x6F, 0x20], [0x5B, 0x30, 0x3A, 0x30, 0x30, 0x3A, 0x30, 0x31, 0x20, 0x2D, 0x20, 0x30, 0x3A, 0x30, 0x30, 0x3A, 0x30, 0x35, 0x5D], [0x20, 0x61, 0x62, 0x63, 0xA], [0x5B, 0x30, 0x3A, 0x30, 0x30, 0x3A, 0x30, 0x35, 0x20, 0x2D, 0x20, 0x30, 0x3A, 0x30, 0x30, 0x3A, 0x30, 0x39, 0x5D], [0x20, 0x20, 0xA],
      [0x5B, 0x30, 0x3A, 0x30, 0x30, 0x3A, 0x30, 0x39, 0x20, 0x2D, 0x20, 0x30, 0x3A, 0x30, 0x30, 0x3A, 0x31, 0x32, 0x5D], [0x20, 0x78]]"
  by (simp add: three_headers_def rx_eval segment_eval class_eval)

text \<open>
  Claim C5: for every input text, with \<open>pieces\<close> the result of splitting it at the
  timestamp headers (the pieces are consecutive parts of the text, so their order is the
  order of the input), the segments are, in the same order, the (header, text) units that
  follow the first piece and whose text is not only whitespace; each carries the two
  times of its header and the trimmed text, no segment has an empty text, and the ids
  are 1, 2, ..., n.
\<close>

theorem segments_in_header_order:
  "concat (re_split header_pattern text) = text \<and>
   map (\<lambda>s. (start_time s, end_time s, original s)) (process_segments text) =
     map (\<lambda>(h, c). (fst (parse_timestamp h), snd (parse_timestamp h), strip c))
       (filter (\<lambda>(h, c). strip c \<noteq> []) (units (tl (re_split header_pattern text)))) \<and>
   (\<forall>s \<in> set (process_segments text). original s \<noteq> []) \<and>
   map seg_id (process_segments text) = [1..<length (process_segments text) + 1]"
proof -
  let ?segs = "process_segments text"
  let ?us = "filter (\<lambda>(h, c). strip c \<noteq> []) (units (tl (re_split header_pattern text)))"
  have u: "map (\<lambda>s. (start_time s, end_time s, original s)) ?segs =
      map (\<lambda>(h, c). (fst (parse_timestamp h), snd (parse_timestamp h), strip c)) ?us"
    using segment_loop_units [of "tl (re_split header_pattern text)" "[]"]
    by (simp add: process_segments_def)
  have "original s \<noteq> []" if "s \<in> set ?segs" for s
  proof -
    have "(start_time s, end_time s, original s) \<in>
        set (map (\<lambda>(h, c). (fst (parse_timestamp h), snd (parse_timestamp h), strip c)) ?us)"
      using that u by (metis (no_types, lifting) image_eqI list.set_map)
    then show ?thesis by auto
  qed
  moreover have "map seg_id ?segs = [1..<length ?segs + 1]"
    using segment_loop_ids [of "[]"] by (simp add: process_segments_def)
  ultimately show ?thesis
    using u re_split_concat by blast
qed

lemma three_headers_segments:
  "process_segments three_headers =
     [\<lparr>seg_id = 1, start_time = [0x30, 0x3A, 0x30, 0x30, 0x3A, 0x30, 0x31], end_time = [0x30, 0x3A, 0x30, 0x30, 0x3A, 0x30, 0x35], original = [0x61, 0x62, 0x63],
       corrected = [0x61, 0x62, 0x63], corrections = [], quality = double (3 / 10)\<rparr>,
      \<lparr>seg_id = 2, start_time = [0x30, 0x3A, 0x30, 0x30, 0x3A, 0x30, 0x39], end_time = [0x30, 0x3A, 0x30, 0x30, 0x3A, 0x31, 0x32], original = [0x78],
       corrected = [0x78], corrections = [], quality = double (3 / 10)\<rparr>]"
proof -
  have "strip [0x20, 0x61, 0x62, 0x63, 0xA] = [0x61, 0x62, 0x63]" "strip [0x20, 0x20, 0xA] = []" "strip [0x20, 0x78] = [0x78]"
    by (simp_all add: strip_def class_eval)
  moreover have "correct_text [0x61, 0x62, 0x63] = ([0x61, 0x62, 0x63], [], double (3 / 10))"
    by (simp add: rx_eval corrector_eval class_eval)
  moreover have "parse_timestamp [0x5B, 0x30, 0x3A, 0x30, 0x30, 0x3A, 0x30, 0x39, 0x20, 0x2D, 0x20, 0x30, 0x3A, 0x30, 0x30, 0x3A, 0x31, 0x32, 0x5D] = ([0x30, 0x3A, 0x30, 0x30, 0x3A, 0x30, 0x39], [0x30, 0x3A, 0x30, 0x30, 0x3A, 0x31, 0x32])"
    by (simp add: rx_eval segment_eval class_eval)
  ultimately show ?thesis
    by (simp add: process_segments_def three_headers_split example_timestamp plain_correct_text)
qed

theorem segments_in_header_order_witness:
  "list_all (\<lambda>s. original s \<noteq> []) (process_segments three_headers) \<and>
   process_segments three_headers \<noteq> [] \<and>
   map seg_id (process_segments three_headers) = [1, 2]"
proof -
  have "\<forall>s \<in> set (process_segments three_headers). original s \<noteq> []"
    and "map seg_id (process_segments three_headers) =
      [1..<length (process_segments three_headers) + 1]"
    using segments_in_header_order [of three_headers] by blast+
  then show ?thesis
    by (simp add: three_headers_segments)
qed

section \<open>What the header pattern matches\<close>

lemma concat_map_concat: "concat (map f (concat xss)) = concat (map (\<lambda>xs. concat (map f xs)) xss)"
  by (induction xss) simp_all

lemma run_runk: "run r st = runk r (\<lambda>st. [st]) st"
  by (simp add: runk_def)

lemma runk_Eps: "runk Eps K = K"
  by (rule ext) (simp add: runk_def)

lemma runk_Lit:
  "runk (Lit c) K (p, s, g) =
     (case s of [] \<Rightarrow> [] | x # xs \<Rightarrow> if x = c then K (Some x, xs, g) else [])"
  by (simp add: runk_def split: list.splits)

lemma runk_Seq: "runk (Seq a b) K = runk a (runk b K)"
  by (rule ext) (simp add: runk_def [abs_def] concat_map_concat comp_def)

lemma runk_Grp:
  "runk (Grp k r) K (p, s, g) =
     runk r (\<lambda>(p', s', g'). K (p', s', (k, take (length s - length s') s) # g')) (p, s, g)"
  by (simp add: runk_def comp_def case_prod_unfold)

lemma needs_Lit: "needs c (runk (Lit c) K)"
  by (auto simp: needs_def runk_Lit split: list.splits)

lemma needs_Grp_end:
  "needs c K \<Longrightarrow> needs c (\<lambda>(p', s', g'). K (p', s', f s' g'))"
  by (simp add: needs_def)

lemma runk_Many:
  assumes "\<not> P c" and "needs c K"
  shows "runk (Many n P) K (p, s, g) =
     (if n \<le> length (takeWhile P s)
      then K (prev_after p (takeWhile P s), dropWhile P s, g) else [])"
proof (induction s arbitrary: n p)
  case Nil
  then show ?case by (simp add: runk_def prev_after_def)
next
  case (Cons x xs)
  show ?case
  proof (cases "P x")
    case True
    then have "x \<noteq> c" using assms(1) by auto
    then have k: "K (p, x # xs, g) = []"
      using assms(2) by (simp add: needs_def)
    have "runk (Many n P) K (p, x # xs, g) = runk (Many (n - 1) P) K (Some x, xs, g)"
      using True k by (simp add: runk_def)
    also have "\<dots> = (if n - 1 \<le> length (takeWhile P xs)
        then K (prev_after (Some x) (takeWhile P xs), dropWhile P xs, g) else [])"
      by (rule Cons.IH)
    finally show ?thesis
      using True by (auto simp: prev_after_def)
  next
    case False
    then show ?thesis by (simp add: runk_def prev_after_def)
  qed
qed

lemma takeWhile_run: "list_all P ds \<Longrightarrow> \<not> P c \<Longrightarrow> takeWhile P (ds @ c # rest) = ds"
  by (induction ds) simp_all

lemma dropWhile_run: "list_all P ds \<Longrightarrow> \<not> P c \<Longrightarrow> dropWhile P (ds @ c # rest) = c # rest"
  by (induction ds) simp_all

lemma runk_digits_complete:
  assumes "digit_run ds" and "\<not> is_digit c" and "needs c K"
  shows "runk digits K (p, ds @ c # rest, g) = K (Some (last ds), c # rest, g)"
proof -
  have "list_all is_digit ds" and "ds \<noteq> []"
    using assms(1) by (simp_all add: digit_run_def)
  then show ?thesis
    using runk_Many [of is_digit c K 1 p "ds @ c # rest" g] assms(2,3)
    by (simp add: digits_def takeWhile_run dropWhile_run prev_after_def Suc_le_eq)
qed

lemma runk_digits_sound:
  assumes "\<not> is_digit c" and "needs c K" and "runk digits K (p, s, g) \<noteq> []"
  shows "\<exists>ds rest. digit_run ds \<and> s = ds @ c # rest \<and>
           runk digits K (p, s, g) = K (Some (last ds), c # rest, g)"
proof -
  let ?ds = "takeWhile is_digit s"
  have eq: "runk digits K (p, s, g) =
      (if 1 \<le> length ?ds then K (prev_after p ?ds, dropWhile is_digit s, g) else [])"
    using runk_Many [of is_digit c K 1 p s g] assms(1,2) by (simp add: digits_def)
  then have len: "1 \<le> length ?ds" and k: "K (prev_after p ?ds, dropWhile is_digit s, g) \<noteq> []"
    using assms(3) by (auto split: if_splits)
  from k assms(2) have "\<not> (case dropWhile is_digit s of [] \<Rightarrow> True | x # xs \<Rightarrow> x \<noteq> c)"
    unfolding needs_def by blast
  then obtain rest where rest: "dropWhile is_digit s = c # rest"
    by (cases "dropWhile is_digit s") auto
  have "digit_run ?ds"
    using len by (auto simp: digit_run_def list_all_iff dest: set_takeWhileD)
  moreover have "s = ?ds @ c # rest"
    using rest takeWhile_dropWhile_id [of is_digit s] by simp
  moreover have "prev_after p ?ds = Some (last ?ds)"
    using len by (auto simp: prev_after_def)
  ultimately show ?thesis
    using eq len rest by (metis (no_types, lifting))
qed

lemma not_digit: "\<not> is_digit 0x3A" "\<not> is_digit 0x20" "\<not> is_digit 0x5D" "\<not> is_digit 0x0A"
  "\<not> is_digit 0x5B" "\<not> is_digit 0x2D"
  by (simp_all add: class_eval)

lemma time_last: "is_time t \<Longrightarrow> t \<noteq> [] \<and> is_digit (last t)"
  by (auto simp: is_time_def digit_run_def list_all_iff)

lemma runk_time_complete:
  assumes "is_time t" and "\<not> is_digit c" and "needs c K"
  shows "runk time_pattern K (p, t @ c # rest, g) = K (Some (last t), c # rest, g)"
proof -
  obtain a b d where t: "t = a @ 0x3A # b @ 0x3A # d"
    and runs: "digit_run a" "digit_run b" "digit_run d"
    using assms(1) by (auto simp: is_time_def)
  have d: "d \<noteq> []" using runs(3) by (simp add: digit_run_def)
  have "runk time_pattern K (p, t @ c # rest, g) =
      runk digits (runk (Lit 0x3A) (runk digits (runk (Lit 0x3A) (runk digits K))))
        (p, a @ 0x3A # (b @ 0x3A # (d @ c # rest)), g)"
    by (simp add: time_pattern_def runk_Seq runk_Eps t)
  also have "\<dots> = runk digits (runk (Lit 0x3A) (runk digits K))
      (Some 0x3A, b @ 0x3A # (d @ c # rest), g)"
    by (simp add: runk_digits_complete [OF runs(1) not_digit(1) needs_Lit] runk_Lit)
  also have "\<dots> = runk digits K (Some 0x3A, d @ c # rest, g)"
    by (simp add: runk_digits_complete [OF runs(2) not_digit(1) needs_Lit] runk_Lit)
  also have "\<dots> = K (Some (last d), c # rest, g)"
    by (rule runk_digits_complete [OF runs(3) assms(2,3)])
  finally show ?thesis
    using d by (simp add: t)
qed

lemma runk_time_sound:
  assumes "\<not> is_digit c" and "needs c K" and "runk time_pattern K (p, s, g) \<noteq> []"
  shows "\<exists>t rest. is_time t \<and> s = t @ c # rest \<and>
           runk time_pattern K (p, s, g) = K (Some (last t), c # rest, g)"
proof -
  let ?K2 = "runk (Lit 0x3A) (runk digits K)"
  let ?K1 = "runk (Lit 0x3A) (runk digits ?K2)"
  have flat: "runk time_pattern K (p, s, g) = runk digits ?K1 (p, s, g)"
    by (simp add: time_pattern_def runk_Seq runk_Eps)
  then obtain a r1 where a: "digit_run a" "s = a @ 0x3A # r1"
    and e1: "runk digits ?K1 (p, s, g) = ?K1 (Some (last a), 0x3A # r1, g)"
    using runk_digits_sound [OF not_digit(1) needs_Lit, of "runk digits ?K2" p s g] assms(3)
    by auto
  have e1': "?K1 (Some (last a), 0x3A # r1, g) = runk digits ?K2 (Some 0x3A, r1, g)"
    by (simp add: runk_Lit)
  then obtain b r2 where b: "digit_run b" "r1 = b @ 0x3A # r2"
    and e2: "runk digits ?K2 (Some 0x3A, r1, g) = ?K2 (Some (last b), 0x3A # r2, g)"
    using runk_digits_sound [OF not_digit(1) needs_Lit, of "runk digits K" "Some 0x3A" r1 g]
      assms(3) flat e1 by auto
  have e2': "?K2 (Some (last b), 0x3A # r2, g) = runk digits K (Some 0x3A, r2, g)"
    by (simp add: runk_Lit)
  then obtain d rest where d: "digit_run d" "r2 = d @ c # rest"
    and e3: "runk digits K (Some 0x3A, r2, g) = K (Some (last d), c # rest, g)"
    using runk_digits_sound [OF assms(1,2), of "Some 0x3A" r2 g] assms(3) flat e1 e1' e2
    by auto
  let ?t = "a @ 0x3A # b @ 0x3A # d"
  have "is_time ?t"
    using a(1) b(1) d(1) by (auto simp: is_time_def)
  moreover have "s = ?t @ c # rest"
    using a(2) b(2) d(2) by simp
  moreover have "last ?t = last d"
    using d(1) by (simp add: digit_run_def)
  ultimately show ?thesis
    using flat e1 e1' e2 e2' e3 by (metis (no_types, lifting))
qed

lemma runk_Lit_sound:
  assumes "runk (Lit c) K (p, s, g) \<noteq> []"
  shows "\<exists>xs. s = c # xs \<and> runk (Lit c) K (p, s, g) = K (Some c, xs, g)"
  using assms by (cases s) (auto simp: runk_Lit split: if_splits)

lemma runk_Grp_time:
  assumes "is_time t" and "\<not> is_digit c" and "needs c K"
  shows "runk (Grp k time_pattern) K (p, t @ c # rest, g) = K (Some (last t), c # rest, (k, t) # g)"
proof -
  let ?K = "\<lambda>(p', s', g'). K (p', s', (k, take (length (t @ c # rest) - length s') (t @ c # rest)) # g')"
  have "needs c ?K"
    using assms(3) by (simp add: needs_def)
  then have "runk time_pattern ?K (p, t @ c # rest, g) = ?K (Some (last t), c # rest, g)"
    by (rule runk_time_complete [OF assms(1,2)])
  then show ?thesis
    by (simp add: runk_Grp)
qed

lemma header_body_flat:
  "runk header_body K =
     runk (Lit 0x5B) (runk time_pattern (runk (Lit 0x20) (runk (Lit 0x2D) (runk (Lit 0x20)
       (runk time_pattern (runk (Lit 0x5D) K))))))"
  by (simp add: header_body_def runk_Seq runk_Eps)

lemma ts_pattern_flat:
  "runk ts_pattern K =
     runk (Lit 0x5B) (runk (Grp 1 time_pattern) (runk (Lit 0x20) (runk (Lit 0x2D) (runk (Lit 0x20)
       (runk (Grp 2 time_pattern) (runk (Lit 0x5D) K))))))"
  by (simp add: ts_pattern_def runk_Seq runk_Eps)

lemma header_text_unfold:
  "header_text a b @ rest = 0x5B # (a @ 0x20 # 0x2D # 0x20 # (b @ 0x5D # rest))"
  by (simp add: header_text_def)

lemma runk_header_complete:
  assumes "is_time a" and "is_time b"
  shows "runk header_body K (p, header_text a b @ rest, g) = K (Some 0x5D, rest, g)"
  by (simp add: header_body_flat header_text_unfold runk_Lit
      runk_time_complete [OF assms(1) not_digit(2) needs_Lit]
      runk_time_complete [OF assms(2) not_digit(3) needs_Lit])

lemma runk_ts_complete:
  assumes "is_time a" and "is_time b"
  shows "runk ts_pattern K (p, header_text a b @ rest, g) = K (Some 0x5D, rest, (2, b) # (1, a) # g)"
  by (simp add: ts_pattern_flat header_text_unfold runk_Lit
      runk_Grp_time [OF assms(1) not_digit(2) needs_Lit]
      runk_Grp_time [OF assms(2) not_digit(3) needs_Lit])

lemma runk_header_sound:
  assumes "runk header_body K (p, s, g) \<noteq> []"
  shows "\<exists>a b rest. is_time a \<and> is_time b \<and> s = header_text a b @ rest \<and>
           runk header_body K (p, s, g) = K (Some 0x5D, rest, g)"
proof -
  let ?K5 = "runk (Lit 0x5D) K"
  let ?K4 = "runk time_pattern ?K5"
  let ?K3 = "runk (Lit 0x20) ?K4"
  let ?K2 = "runk (Lit 0x2D) ?K3"
  let ?K1 = "runk (Lit 0x20) ?K2"
  let ?K0 = "runk time_pattern ?K1"
  have v0: "runk header_body K (p, s, g) = runk (Lit 0x5B) ?K0 (p, s, g)"
    by (simp add: header_body_flat)
  with assms obtain s1 where s1: "s = 0x5B # s1"
    and v1: "runk header_body K (p, s, g) = ?K0 (Some 0x5B, s1, g)"
    using runk_Lit_sound [of "0x5B" ?K0 p s g] by auto
  with assms obtain a r1 where a: "is_time a" "s1 = a @ 0x20 # r1"
    and v2: "runk header_body K (p, s, g) = ?K1 (Some (last a), 0x20 # r1, g)"
    using runk_time_sound [of "0x20" ?K1 "Some 0x5B" s1 g, OF not_digit(2) needs_Lit] by auto
  then have v3: "runk header_body K (p, s, g) = ?K2 (Some 0x20, r1, g)"
    by (simp add: runk_Lit)
  with assms obtain r2 where r2: "r1 = 0x2D # r2"
    and v4: "runk header_body K (p, s, g) = ?K3 (Some 0x2D, r2, g)"
    using runk_Lit_sound [of "0x2D" ?K3 "Some 0x20" r1 g] by auto
  with assms obtain r3 where r3: "r2 = 0x20 # r3"
    and v5: "runk header_body K (p, s, g) = ?K4 (Some 0x20, r3, g)"
    using runk_Lit_sound [of "0x20" ?K4 "Some 0x2D" r2 g] by auto
  with assms obtain b rest where b: "is_time b" "r3 = b @ 0x5D # rest"
    and v6: "runk header_body K (p, s, g) = ?K5 (Some (last b), 0x5D # rest, g)"
    using runk_time_sound [of "0x5D" ?K5 "Some 0x20" r3 g, OF not_digit(3) needs_Lit] by auto
  then have "runk header_body K (p, s, g) = K (Some 0x5D, rest, g)"
    by (simp add: runk_Lit)
  moreover have "s = header_text a b @ rest"
    using s1 a(2) r2 r3 b(2) by (simp add: header_text_def)
  ultimately show ?thesis
    using a(1) b(1) by blast
qed

lemma match_header_complete:
  assumes "is_time a" and "is_time b"
  shows "match_at header_pattern p (header_text a b @ rest) =
           Some (length (header_text a b), [(1, header_text a b)])"
proof -
  have "run header_pattern (p, header_text a b @ rest, []) =
      [(Some 0x5D, rest, [(1, header_text a b)])]"
    unfolding header_pattern_def run_runk runk_Grp
    by (simp add: runk_header_complete [OF assms])
  then show ?thesis
    by (simp add: match_at_def)
qed

lemma match_header_sound:
  assumes "match_at header_pattern p s = Some (n, g)"
  shows "\<exists>a b rest. is_time a \<and> is_time b \<and> s = header_text a b @ rest \<and>
           n = length (header_text a b) \<and> g = [(1, header_text a b)]"
proof -
  let ?K = "\<lambda>(p', s', g'). [(p', s', (1, take (length s - length s') s) # g')]"
  have r: "run header_pattern (p, s, []) = runk header_body ?K (p, s, [])"
    unfolding header_pattern_def run_runk runk_Grp by simp
  have "run header_pattern (p, s, []) \<noteq> []"
    using assms by (auto simp: match_at_def split: list.splits)
  then obtain a b rest where ab: "is_time a" "is_time b" and s: "s = header_text a b @ rest"
    using runk_header_sound [of ?K p s "[]"] r by auto
  have "match_at header_pattern p s = Some (length (header_text a b), [(1, header_text a b)])"
    unfolding s by (rule match_header_complete [OF ab])
  then show ?thesis
    using assms ab s by auto
qed

lemma match_header_any_prev:
  "match_at header_pattern p s = match_at header_pattern p' s"
proof (cases "match_at header_pattern p s")
  case None
  show ?thesis
  proof (cases "match_at header_pattern p' s")
    case None
    then show ?thesis using \<open>match_at header_pattern p s = None\<close> by simp
  next
    case (Some m)
    then obtain a b rest where "is_time a" "is_time b" "s = header_text a b @ rest"
      using match_header_sound [of p' s "fst m" "snd m"] by auto
    then show ?thesis
      using None match_header_complete [of a b p rest] by simp
  qed
next
  case (Some m)
  then obtain a b rest where "is_time a" "is_time b" "s = header_text a b @ rest"
    using match_header_sound [of p s "fst m" "snd m"] by auto
  then show ?thesis
    using match_header_complete [of a b] by simp
qed

lemma parse_timestamp_header:
  assumes "is_time a" and "is_time b"
  shows "parse_timestamp (header_text a b) = (a, b)"
proof -
  have "run ts_pattern (None, header_text a b, []) = [(Some 0x5D, [], [(2, b), (1, a)])]"
    using runk_ts_complete [of a b "\<lambda>st. [st]" None "[]" "[]", OF assms]
    by (simp add: run_runk)
  then have "match_at ts_pattern None (header_text a b) =
      Some (length (header_text a b), [(2, b), (1, a)])"
    by (simp add: match_at_def)
  moreover obtain x xs where "header_text a b = x # xs"
    by (simp add: header_text_def)
  ultimately have "scan ts_pattern None (header_text a b) =
      Some (0, length (header_text a b), [(2, b), (1, a)])"
    by simp
  then show ?thesis
    by (simp add: parse_timestamp_def re_search_def group_text_def)
qed

section \<open>Splitting a written transcript\<close>

lemma time_chars: "is_time t \<Longrightarrow> x \<in> set t \<Longrightarrow> is_digit x \<or> x = 0x3A"
  by (auto simp: is_time_def digit_run_def list_all_iff)

lemma header_no_newline:
  assumes "is_time a" and "is_time b"
  shows "0x0A \<notin> set (header_text a b)"
  using time_chars [OF assms(1), of "0x0A"] time_chars [OF assms(2), of "0x0A"] not_digit(4)
  by (auto simp: header_text_def)

lemma header_not_empty: "header_text a b \<noteq> []" "hd (header_text a b) = 0x5B"
  "last (header_text a b) = 0x5D"
  by (simp_all add: header_text_def)

lemma no_header_at_newline: "match_at header_pattern p (0x0A # s) = None"
proof (cases "match_at header_pattern p (0x0A # s)")
  case None
  then show ?thesis .
next
  case (Some m)
  then obtain a b rest where "0x0A # s = header_text a b @ rest"
    using match_header_sound [of p "0x0A # s" "fst m" "snd m"] by auto
  then show ?thesis by (simp add: header_text_def)
qed

lemma prev_after_simps:
  "prev_after p [] = p" "prev_after p (x # u) = prev_after (Some x) u"
  by (simp_all add: prev_after_def)

lemma scan_None_here: "scan r p s = None \<Longrightarrow> match_at r p s = None"
  by (cases s) (auto split: option.splits)

lemma scan_None_next: "scan r p (x # xs) = None \<Longrightarrow> scan r (Some x) xs = None"
  by (auto split: option.splits)

lemma scan_None: "scan r p (u @ v) = None \<Longrightarrow> match_at r (prev_after p u) v = None"
proof (induction u arbitrary: p)
  case Nil
  then show ?case by (simp add: scan_None_here prev_after_simps)
next
  case (Cons x u)
  then have "scan r (Some x) (u @ v) = None"
    using scan_None_next [of r p x "u @ v"] by simp
  then have "match_at r (prev_after (Some x) u) v = None"
    by (rule Cons.IH)
  then show ?case by (simp add: prev_after_simps)
qed

lemma prefix_before_char:
  assumes "h @ rest = v @ x # w" and "x \<notin> set h"
  shows "\<exists>v'. v = h @ v'"
proof -
  from assms(1) obtain us where
    "(h = v @ us \<and> us @ rest = x # w) \<or> (h @ us = v \<and> rest = us @ x # w)"
    by (auto simp: append_eq_append_conv2)
  then show ?thesis
  proof
    assume c: "h = v @ us \<and> us @ rest = x # w"
    then have "us = []"
      using assms(2) by (cases us) auto
    then show ?thesis using c by simp
  next
    assume "h @ us = v \<and> rest = us @ x # w"
    then show ?thesis by auto
  qed
qed

lemma no_header_inside:
  assumes "re_search header_pattern c = None" and "c = u @ v"
  shows "match_at header_pattern p (v @ 0x0A # w) = None"
proof (cases "match_at header_pattern p (v @ 0x0A # w)")
  case None
  then show ?thesis .
next
  case (Some m)
  then obtain a b rest where ab: "is_time a" "is_time b"
    and eq: "v @ 0x0A # w = header_text a b @ rest"
    using match_header_sound [of p "v @ 0x0A # w" "fst m" "snd m"] by auto
  then obtain v' where "v = header_text a b @ v'"
    using prefix_before_char [of "header_text a b" rest v "0x0A" w] header_no_newline [OF ab]
    by auto
  then have "match_at header_pattern (prev_after None u) v \<noteq> None"
    using match_header_complete [OF ab] by simp
  moreover have "match_at header_pattern (prev_after None u) v = None"
    using scan_None [of header_pattern None u v] assms by (simp add: re_search_def)
  ultimately show ?thesis by simp
qed

lemma split_skip:
  assumes "\<And>u v. body = u @ v \<Longrightarrow> v \<noteq> [] \<Longrightarrow> match_at r (prev_after p u) (v @ w) = None"
  shows "split_from r p acc (body @ w) = split_from r (prev_after p body) (acc @ body) w"
  using assms
proof (induction body arbitrary: p acc)
  case Nil
  then show ?case by (simp add: prev_after_def)
next
  case (Cons x xs)
  have "match_at r p (x # xs @ w) = None"
    using Cons.prems [of "[]" "x # xs"] by (simp add: prev_after_simps)
  then have "split_from r p acc ((x # xs) @ w) = split_from r (Some x) (acc @ [x]) (xs @ w)"
    by simp
  also have "\<dots> = split_from r (prev_after (Some x) xs) ((acc @ [x]) @ xs) w"
  proof (rule Cons.IH)
    fix u v
    assume "xs = u @ v" and "v \<noteq> []"
    then show "match_at r (prev_after (Some x) u) (v @ w) = None"
      using Cons.prems [of "x # u" v] by (simp add: prev_after_simps)
  qed
  finally show ?case
    by (simp add: prev_after_simps)
qed

lemma body_no_header:
  assumes "re_search header_pattern c = None"
    and "0x0A # c @ [0x0A, 0x0A] = u @ v" and "v \<noteq> []"
  shows "match_at header_pattern p (v @ w) = None"
proof (cases u)
  case Nil
  then show ?thesis
    using assms(2) no_header_at_newline [of p "c @ [0x0A, 0x0A] @ w"] by auto
next
  case (Cons y u')
  then have eq: "c @ [0x0A, 0x0A] = u' @ v"
    using assms(2) by simp
  then obtain us where
    "(c = u' @ us \<and> us @ [0x0A, 0x0A] = v) \<or> (c @ us = u' \<and> [0x0A, 0x0A] = us @ v)"
    by (auto simp: append_eq_append_conv2)
  then show ?thesis
  proof
    assume "c = u' @ us \<and> us @ [0x0A, 0x0A] = v"
    then show ?thesis
      using no_header_inside [OF assms(1), of u' us p "0x0A # w"] by auto
  next
    assume c: "c @ us = u' \<and> [0x0A, 0x0A] = us @ v"
    then obtain v' where "v = 0x0A # v'"
      using assms(3) by (cases us; cases "tl us") auto
    then show ?thesis
      using no_header_at_newline [of p "v' @ w"] by simp
  qed
qed

lemma split_unit:
  assumes "wf_unit (a, b, c)"
  shows "split_from header_pattern p acc (unit_text (a, b, c) @ w) =
           acc # header_text a b #
           split_from header_pattern (Some 0x0A) (0x0A # c @ [0x0A, 0x0A]) w"
proof -
  let ?h = "header_text a b" and ?body = "0x0A # c @ [0x0A, 0x0A]"
  have ab: "is_time a" "is_time b" and c: "re_search header_pattern c = None"
    using assms by (simp_all add: wf_unit_def)
  obtain x xs where h: "?h = x # xs"
    by (simp add: header_text_def)
  have m: "match_at header_pattern p (x # xs @ ?body @ w) = Some (length ?h, [(1, ?h)])"
    using match_header_complete [OF ab, of p "?body @ w"] h by simp
  have "split_from header_pattern p acc (?h @ ?body @ w) =
      acc # ?h # split_from header_pattern (Some (last ?h)) [] (?body @ w)"
    using m h by (simp add: group_text_def)
  also have "split_from header_pattern (Some (last ?h)) [] (?body @ w) =
      split_from header_pattern (prev_after (Some (last ?h)) ?body) ([] @ ?body) w"
    by (rule split_skip) (rule body_no_header [OF c])
  finally show ?thesis
    by (simp add: unit_text_def write_segment_def prev_after_def)
qed

lemma split_units:
  "list_all wf_unit us \<Longrightarrow>
   split_from header_pattern p acc (concat (map unit_text us)) =
     acc # concat (map unit_pieces us)"
proof (induction us arbitrary: p acc)
  case Nil
  then show ?case by simp
next
  case (Cons u us)
  obtain a b c where u: "u = (a, b, c)" by (cases u)
  then have "wf_unit (a, b, c)" and "list_all wf_unit us"
    using Cons.prems by simp_all
  then show ?case
    using split_unit [of a b c p acc "concat (map unit_text us)"] Cons.IH
    by (simp add: u unit_pieces_def)
qed

section \<open>Writing a transcript and reading it back\<close>

lemma last_dropWhile: "dropWhile P xs \<noteq> [] \<Longrightarrow> last (dropWhile P xs) = last xs"
  by (metis last_appendR takeWhile_dropWhile_id)

lemma strip_ends:
  "strip s = [] \<or> (\<not> is_space (hd (strip s)) \<and> \<not> is_space (last (strip s)))"
proof (cases "strip s = []")
  case True
  then show ?thesis by simp
next
  case False
  let ?d = "dropWhile is_space s"
  let ?e = "dropWhile is_space (rev ?d)"
  have e: "?e \<noteq> []" and s: "strip s = rev ?e"
    using False by (simp_all add: strip_def)
  have d: "?d \<noteq> []"
  proof
    assume a: "?d = []"
    have "?e = []" unfolding a by simp
    with e show False by simp
  qed
  have "\<not> is_space (hd ?e)"
    using e by (rule hd_dropWhile)
  then have "\<not> is_space (last (strip s))"
    using e by (simp add: s last_rev)
  moreover have "last ?e = hd ?d"
    using last_dropWhile [OF e] d by (simp add: last_rev)
  then have "\<not> is_space (hd (strip s))"
    using e hd_dropWhile [OF d] by (simp add: s hd_rev)
  ultimately show ?thesis by simp
qed

lemma dropWhile_all: "list_all P l \<Longrightarrow> dropWhile P (l @ ys) = dropWhile P ys"
  by (induction l) simp_all

lemma strip_pad:
  assumes "list_all is_space l" and "list_all is_space r"
    and "c \<noteq> []" and "\<not> is_space (hd c)" and "\<not> is_space (last c)"
  shows "strip (l @ c @ r) = c"
proof -
  have "dropWhile is_space (l @ c @ r) = dropWhile is_space (c @ r)"
    using assms(1) by (simp add: dropWhile_all)
  also have "\<dots> = c @ r"
    using assms(3,4) by (cases c) simp_all
  finally have "strip (l @ c @ r) = rev (dropWhile is_space (rev r @ rev c))"
    by (simp add: strip_def)
  also have "dropWhile is_space (rev r @ rev c) = dropWhile is_space (rev c)"
    using assms(2) dropWhile_all [of is_space "rev r" "rev c"] by simp
  also have "\<dots> = rev c"
    using assms(3,5) by (cases "rev c") (auto simp: last_rev [symmetric] simp del: last_rev)
  finally show ?thesis by simp
qed

lemma strip_idem: "strip (strip s) = strip s"
proof (cases "strip s = []")
  case True
  have "strip [] = []" by (simp add: strip_def)
  with True show ?thesis by simp
next
  case False
  then have "\<not> is_space (hd (strip s))" "\<not> is_space (last (strip s))"
    using strip_ends [of s] by auto
  with False show ?thesis
    using strip_pad [of "[]" "[]" "strip s"] by simp
qed

lemma is_space_ascii: "is_space 0x0A" "is_space 0x20"
  by (simp_all add: class_eval)

lemma strip_padded:
  assumes "c \<noteq> []" and "strip c = c"
  shows "strip (0x0A # c @ [0x0A, 0x0A]) = c" and "strip (c @ [0x20]) = c"
proof -
  have ends: "\<not> is_space (hd c)" "\<not> is_space (last c)"
    using strip_ends [of c] assms by auto
  show "strip (0x0A # c @ [0x0A, 0x0A]) = c"
    using strip_pad [of "[0x0A]" "[0x0A, 0x0A]" c] assms(1) ends by (simp add: is_space_ascii)
  show "strip (c @ [0x20]) = c"
    using strip_pad [of "[]" "[0x20]" c] assms(1) ends by (simp add: is_space_ascii)
qed

lemma correct_text_stripped: "strip (fst (correct_text x)) = fst (correct_text x)"
  by (simp add: correct_text_def cleanup_def strip_idem split: prod.splits)

lemma split_from_not_empty: "split_from r p acc s \<noteq> []"
  by (induction r p acc s rule: split_from.induct) (auto split: option.splits)

lemma split_from_headers:
  "(h, c) \<in> set (units (tl (split_from header_pattern p acc s))) \<Longrightarrow>
   \<exists>a b. is_time a \<and> is_time b \<and> h = header_text a b"
proof (induction header_pattern p acc s rule: split_from.induct)
  case (1 p acc)
  then show ?case by simp
next
  case (2 p acc x xs)
  show ?case
  proof (cases "match_at header_pattern p (x # xs)")
    case None
    then show ?thesis using 2 by simp
  next
    case (Some m)
    obtain n g where m: "m = (n, g)" by (cases m)
    show ?thesis
    proof (cases "n = 0")
      case True
      then show ?thesis using 2 Some m by simp
    next
      case False
      let ?nx = "split_from header_pattern (Some (last (take n (x # xs)))) [] (drop n (x # xs))"
      obtain y ys where nx: "?nx = y # ys"
        using split_from_not_empty [of header_pattern _ "[]" "drop n (x # xs)"]
        by (cases ?nx) auto
      have tl: "tl (split_from header_pattern p acc (x # xs)) = group_text g 1 # y # ys"
        using Some m False nx by simp
      from 2(4) have "(h, c) = (group_text g 1, y) \<or> (h, c) \<in> set (units ys)"
        unfolding tl by simp
      then show ?thesis
      proof
        assume hc: "(h, c) = (group_text g 1, y)"
        obtain a b where ab: "is_time a" "is_time b" and g: "g = [(1, header_text a b)]"
          using match_header_sound [OF Some [unfolded m]] by blast
        have "h = header_text a b"
          using hc g by (simp add: group_text_def)
        then show ?thesis
          using ab by blast
      next
        assume "(h, c) \<in> set (units ys)"
        then have "(h, c) \<in> set (units (tl ?nx))"
          using nx by simp
        then show ?thesis
          using 2(3) [OF Some [unfolded m] refl False] by simp
      qed
    qed
  qed
qed

lemma segment_loop_corrected:
  "map (\<lambda>s. (original s, corrected s)) (segment_loop ps results) =
   map (\<lambda>s. (original s, corrected s)) results @
   map (\<lambda>(h, c). (strip c, fst (correct_text (strip c))))
     (filter (\<lambda>(h, c). strip c \<noteq> []) (units ps))"
  by (induction ps results rule: segment_loop.induct) (auto split: prod.splits)

lemma segment_times:
  assumes "s \<in> set (process_segments text)"
  shows "is_time (start_time s) \<and> is_time (end_time s)"
proof -
  let ?ps = "tl (re_split header_pattern text)"
  have "(start_time s, end_time s, original s) \<in>
      set (map (\<lambda>s. (start_time s, end_time s, original s)) (process_segments text))"
    using assms by force
  then have "(start_time s, end_time s, original s) \<in>
      set (map (\<lambda>(h, c). (fst (parse_timestamp h), snd (parse_timestamp h), strip c))
        (filter (\<lambda>(h, c). strip c \<noteq> []) (units ?ps)))"
    using segment_loop_units [of ?ps "[]"] by (simp add: process_segments_def)
  then obtain h c where hc: "(h, c) \<in> set (units ?ps)"
    and st: "start_time s = fst (parse_timestamp h)" "end_time s = snd (parse_timestamp h)"
    by auto
  then obtain a b where "is_time a" "is_time b" "h = header_text a b"
    using split_from_headers [of h c None "[]" "text"] by (auto simp: re_split_def)
  then show ?thesis
    using st by (simp add: parse_timestamp_header)
qed

lemma segment_corrected_stripped:
  assumes "s \<in> set (process_segments text)"
  shows "strip (corrected s) = corrected s"
proof -
  let ?ps = "tl (re_split header_pattern text)"
  have "(original s, corrected s) \<in>
      set (map (\<lambda>s. (original s, corrected s)) (process_segments text))"
    using assms by force
  then have "(original s, corrected s) \<in>
      set (map (\<lambda>(h, c). (strip c, fst (correct_text (strip c))))
        (filter (\<lambda>(h, c). strip c \<noteq> []) (units ?ps)))"
    using segment_loop_corrected [of ?ps "[]"] by (simp add: process_segments_def)
  then obtain x where "corrected s = fst (correct_text x)"
    by auto
  then show ?thesis
    by (simp add: correct_text_stripped)
qed

lemma read_back_units:
  "list_all wf_unit us \<Longrightarrow>
   map (\<lambda>(h, c). (fst (parse_timestamp h), snd (parse_timestamp h), strip c))
     (filter (\<lambda>(h, c). strip c \<noteq> []) (units (concat (map unit_pieces us)))) = us"
  by (induction us)
    (auto simp: unit_pieces_def wf_unit_def strip_padded parse_timestamp_header)

lemma roundtrip_units:
  assumes "list_all wf_unit us"
  shows "map (\<lambda>s. (start_time s, end_time s, original s))
           (process_segments (concat (map unit_text us))) = us"
proof -
  have "tl (re_split header_pattern (concat (map unit_text us))) = concat (map unit_pieces us)"
    using split_units [OF assms, of None "[]"] by (simp add: re_split_def)
  then show ?thesis
    using segment_loop_units [of "concat (map unit_pieces us)" "[]"] read_back_units [OF assms]
    by (simp add: process_segments_def)
qed

lemma written_units:
  "write_output segs = concat (map unit_text (map (\<lambda>s. (start_time s, end_time s, corrected s)) segs))"
  by (simp add: write_output_def unit_text_def comp_def)

lemma pipeline_units_wf:
  assumes "\<forall>s \<in> set (process_segments text).
      corrected s \<noteq> [] \<and> re_search header_pattern (corrected s) = None"
  shows "list_all wf_unit (map (\<lambda>s. (start_time s, end_time s, corrected s)) (process_segments text))"
  using assms segment_times segment_corrected_stripped
  by (auto simp: list_all_iff wf_unit_def)

lemma filler_only_split:
  "re_split header_pattern filler_only_input = [[], [0x5B, 0x30, 0x3A, 0x30, 0x30, 0x3A, 0x30, 0x31, 0x20, 0x2D, 0x20, 0x30, 0x3A, 0x30, 0x30, 0x3A, 0x30, 0x35, 0x5D], [0x20, 0x3048, 0x30FC]]"
  by (simp add: filler_only_input_def rx_eval segment_eval class_eval)

lemma filler_only_correct_text: "correct_text [0x3048, 0x30FC] = ([], [label_filler], 1 / 2)"
  by (simp add: rx_eval corrector_eval class_eval)

lemma filler_only_segments:
  "process_segments filler_only_input =
     [\<lparr>seg_id = 1, start_time = [0x30, 0x3A, 0x30, 0x30, 0x3A, 0x30, 0x31], end_time = [0x30, 0x3A, 0x30, 0x30, 0x3A, 0x30, 0x35], original = [0x3048, 0x30FC],
       corrected = [], corrections = [label_filler], quality = 1 / 2\<rparr>]"
proof -
  have "strip [0x20, 0x3048, 0x30FC] = [0x3048, 0x30FC]"
    by (simp add: strip_def class_eval)
  then show ?thesis
    by (simp add: process_segments_def filler_only_split filler_only_correct_text
        example_timestamp)
qed

lemma filler_only_read_back:
  "process_segments (write_output (process_segments filler_only_input)) = []"
proof -
  have "write_output (process_segments filler_only_input) = [0x5B, 0x30, 0x3A, 0x30, 0x30, 0x3A, 0x30, 0x31, 0x20, 0x2D, 0x20, 0x30, 0x3A, 0x30, 0x30, 0x3A, 0x30, 0x35, 0x5D, 0xA, 0xA, 0xA]"
    by (simp add: filler_only_segments write_output_def write_segment_def header_text_def)
  moreover have "re_split header_pattern [0x5B, 0x30, 0x3A, 0x30, 0x30, 0x3A, 0x30, 0x31, 0x20, 0x2D, 0x20, 0x30, 0x3A, 0x30, 0x30, 0x3A, 0x30, 0x35, 0x5D, 0xA, 0xA, 0xA] =
      [[], [0x5B, 0x30, 0x3A, 0x30, 0x30, 0x3A, 0x30, 0x31, 0x20, 0x2D, 0x20, 0x30, 0x3A, 0x30, 0x30, 0x3A, 0x30, 0x35, 0x5D], [0xA, 0xA, 0xA]]"
    by (simp add: rx_eval segment_eval class_eval)
  moreover have "strip [0xA, 0xA, 0xA] = []"
    by (simp add: strip_def class_eval)
  ultimately show ?thesis
    by (simp add: process_segments_def)
qed

text \<open>
  Claim C9, as the specification states it: writing the segments and segmenting what
  was written gives back the same (start, end, text) tuples. For a unit that is only a
  hesitation sound the corrected text is empty; the written unit has a blank text and
  yields no segment when read back, so one tuple is written and none is read.
\<close>

theorem roundtrip_counterexample:
  "map (\<lambda>s. (start_time s, end_time s, original s))
     (process_segments (write_output (process_segments filler_only_input))) \<noteq>
   map (\<lambda>s. (start_time s, end_time s, corrected s)) (process_segments filler_only_input)"
  using filler_only_read_back by (simp add: filler_only_segments)

text \<open>
  Claim C9, amended: for every segment list produced by the pipeline in which every
  corrected text is non-empty and contains no timestamp header, writing each segment as
  the header line, the corrected text and a blank line, and segmenting the
  concatenation again, yields the identical sequence of (start time, end time, text)
  tuples.
\<close>

theorem roundtrip_amended:
  assumes "\<forall>s \<in> set (process_segments text).
      corrected s \<noteq> [] \<and> re_search header_pattern (corrected s) = None"
  shows "map (\<lambda>s. (start_time s, end_time s, original s))
           (process_segments (write_output (process_segments text))) =
         map (\<lambda>s. (start_time s, end_time s, corrected s)) (process_segments text)"
  unfolding written_units
  by (rule roundtrip_units) (rule pipeline_units_wf [OF assms])

lemma plain_texts_no_header:
  "re_search header_pattern [0x61, 0x62, 0x63] = None" "re_search header_pattern [0x78] = None"
  by (simp_all add: rx_eval segment_eval)

theorem roundtrip_amended_witness:
  "list_all (\<lambda>s. corrected s \<noteq> [] \<and> re_search header_pattern (corrected s) = None)
     (process_segments three_headers) \<and>
   map (\<lambda>s. (start_time s, end_time s, original s))
     (process_segments (write_output (process_segments three_headers))) =
   [([0x30, 0x3A, 0x30, 0x30, 0x3A, 0x30, 0x31], [0x30, 0x3A, 0x30, 0x30, 0x3A, 0x30, 0x35], [0x61, 0x62, 0x63]), ([0x30, 0x3A, 0x30, 0x30, 0x3A, 0x30, 0x39], [0x30, 0x3A, 0x30, 0x30, 0x3A, 0x31, 0x32], [0x78])]"
proof -
  have h: "\<forall>s \<in> set (process_segments three_headers).
      corrected s \<noteq> [] \<and> re_search header_pattern (corrected s) = None"
    by (simp add: three_headers_segments plain_texts_no_header)
  have "map (\<lambda>s. (start_time s, end_time s, corrected s)) (process_segments three_headers) =
      [([0x30, 0x3A, 0x30, 0x30, 0x3A, 0x30, 0x31], [0x30, 0x3A, 0x30, 0x30, 0x3A, 0x30, 0x35], [0x61, 0x62, 0x63]), ([0x30, 0x3A, 0x30, 0x30, 0x3A, 0x30, 0x39], [0x30, 0x3A, 0x30, 0x30, 0x3A, 0x31, 0x32], [0x78])]"
    by (simp add: three_headers_segments)
  with h roundtrip_amended [OF h] show ?thesis
    by (simp add: list_all_iff)
qed

section \<open>The extractor of the evaluator on a written transcript\<close>

lemma match_at_Grp: "(match_at (Grp k r) p s = None) = (match_at r p s = None)"
  by (simp add: match_at_def split: list.splits prod.splits)

lemma header_line_matches:
  assumes "is_time a" and "is_time b"
  shows "re_match header_body (header_text a b) \<noteq> None"
  using match_header_complete [OF assms, of None "[]"]
    match_at_Grp [of 1 header_body None "header_text a b"]
  by (simp add: re_match_def header_pattern_def)

lemma text_line_no_match:
  assumes "re_search header_pattern c = None"
  shows "re_match header_body c = None"
  using scan_None_here [of header_pattern None c] assms match_at_Grp [of 1 header_body None c]
  by (simp add: re_match_def re_search_def header_pattern_def)

lemma empty_line_no_match: "re_match header_body [] = None"
  by (simp add: rx_eval segment_eval)

lemma strip_empty: "strip [] = []"
  by (simp add: strip_def)

lemma strip_header: "strip (header_text a b) = header_text a b"
proof -
  have "\<not> is_space 0x5B" "\<not> is_space 0x5D"
    by (simp_all add: class_eval)
  then show ?thesis
    using strip_pad [of "[]" "[]" "header_text a b"] by (simp add: header_not_empty)
qed

lemma split_on_line:
  "sep \<notin> set l \<Longrightarrow> split_on sep acc (l @ sep # rest) = (acc @ l) # split_on sep [] rest"
  by (induction l arbitrary: acc) simp_all

lemma split_on_unit:
  assumes "is_time a" and "is_time b" and "0x0A \<notin> set c"
  shows "split_on 0x0A [] (unit_text (a, b, c) @ rest) =
           header_text a b # c # [] # split_on 0x0A [] rest"
proof -
  have "unit_text (a, b, c) @ rest = header_text a b @ 0x0A # (c @ 0x0A # 0x0A # rest)"
    by (simp add: unit_text_def write_segment_def)
  then show ?thesis
    using header_no_newline [OF assms(1,2)] assms(3) by (simp add: split_on_line)
qed

lemma split_on_units:
  "list_all wf_unit us \<Longrightarrow> list_all (\<lambda>(a, b, c). 0x0A \<notin> set c) us \<Longrightarrow>
   split_on 0x0A [] (concat (map unit_text us)) =
     concat (map (\<lambda>(a, b, c). [header_text a b, c, []]) us) @ [[]]"
  by (induction us) (auto simp: split_on_unit wf_unit_def)

lemma extract_loop_unit:
  assumes "wf_unit (a, b, c)"
  shows "extract_loop (enumerate n (header_text a b # c # [] # rest)) cur segs =
           extract_loop (enumerate (Suc (Suc (Suc n))) rest)
             \<lparr>timestamp = header_text a b, content = c @ [0x20], line_number = n\<rparr>
             (if content cur \<noteq> [] then segs @ [cur] else segs)"
proof -
  have w: "is_time a" "is_time b" "c \<noteq> []" "strip c = c" "re_search header_pattern c = None"
    using assms by (simp_all add: wf_unit_def)
  show ?thesis
    by (simp add: strip_header strip_empty header_line_matches [OF w(1,2)] w(3,4)
        text_line_no_match [OF w(5)] empty_line_no_match)
qed

lemma extract_loop_units:
  "list_all wf_unit us \<Longrightarrow>
   map (\<lambda>r. (timestamp r, strip (content r)))
     (extract_loop
        (enumerate n (concat (map (\<lambda>(a, b, c). [header_text a b, c, []]) us) @ [[]])) cur segs) =
   map (\<lambda>r. (timestamp r, strip (content r))) (if content cur \<noteq> [] then segs @ [cur] else segs) @
   map (\<lambda>(a, b, c). (header_text a b, c)) us"
proof (induction us arbitrary: n cur segs)
  case Nil
  then show ?case
    by (simp add: strip_empty empty_line_no_match)
next
  case (Cons u us)
  obtain a b c where u: "u = (a, b, c)"
    by (cases u) auto
  have w: "wf_unit (a, b, c)" and ws: "list_all wf_unit us"
    using Cons.prems u by simp_all
  have c: "c \<noteq> []" "strip c = c"
    using w by (simp_all add: wf_unit_def)
  let ?lines = "concat (map (\<lambda>(a, b, c). [header_text a b, c, []]) us) @ [[]]"
  let ?cur = "\<lparr>timestamp = header_text a b, content = c @ [0x20], line_number = n\<rparr>"
  let ?segs = "if content cur \<noteq> [] then segs @ [cur] else segs"
  have "extract_loop (enumerate n (concat (map (\<lambda>(a, b, c). [header_text a b, c, []]) (u # us))
          @ [[]])) cur segs =
      extract_loop (enumerate (Suc (Suc (Suc n))) ?lines) ?cur ?segs"
    using extract_loop_unit [OF w, of n ?lines cur segs] by (simp add: u)
  then show ?case
    using Cons.IH [OF ws, of "Suc (Suc (Suc n))" ?cur ?segs] by (simp add: u strip_padded(2) [OF c])
qed

lemma extractor_units:
  assumes "list_all wf_unit us" and "list_all (\<lambda>(a, b, c). 0x0A \<notin> set c) us"
  shows "map (\<lambda>r. (timestamp r, strip (content r)))
           (extract_segments_improved (concat (map unit_text us))) =
         map (\<lambda>(a, b, c). (header_text a b, c)) us"
  using extract_loop_units [OF assms(1), of 0 "\<lparr>timestamp = [], content = [], line_number = 0\<rparr>" "[]"]
  by (simp add: extract_segments_improved_def split_on_units [OF assms])

lemma segmenter_units:
  assumes "list_all wf_unit us"
  shows "map (\<lambda>s. (header_text (start_time s) (end_time s), original s))
           (process_segments (concat (map unit_text us))) =
         map (\<lambda>(a, b, c). (header_text a b, c)) us"
proof -
  have "map (\<lambda>s. (header_text (start_time s) (end_time s), original s))
          (process_segments (concat (map unit_text us))) =
      map (\<lambda>(a, b, c). (header_text a b, c))
        (map (\<lambda>s. (start_time s, end_time s, original s))
          (process_segments (concat (map unit_text us))))"
    by simp
  then show ?thesis
    by (simp only: roundtrip_units [OF assms])
qed

lemma example_extracted: "extract_segments_improved example_input = []"
proof -
  have "split_on 0x0A [] example_input = [example_input]"
    by (simp add: example_input_def)
  moreover have "strip example_input = example_input"
    by (simp add: example_input_def strip_def class_eval)
  moreover have "re_match header_body example_input \<noteq> None"
    by (simp add: example_input_def rx_eval segment_eval class_eval)
  ultimately show ?thesis
    by (simp add: extract_segments_improved_def)
qed

text \<open>
  Claim C7, as the specification states it: for every text the extractor of the
  evaluator yields the same (header, trimmed content) units as the segmenter. On the
  example of the specification, where the text follows its header on the same line, the
  extractor takes the whole line as a header with no content and yields no unit, while
  the segmenter yields one.
\<close>

theorem extractor_counterexample:
  "map (\<lambda>r. (timestamp r, strip (content r))) (extract_segments_improved example_input) \<noteq>
   map (\<lambda>s. (header_text (start_time s) (end_time s), original s))
     (process_segments example_input)"
  by (simp add: example_extracted example_segments)

text \<open>
  Claim C7, amended: for every transcript written by the pipeline in which every
  corrected text is non-empty, is a single line and contains no timestamp header, the
  extractor of the evaluator yields the same sequence of (timestamp header, trimmed
  content) units as the segmenter yields as (start and end header, original text).
\<close>

theorem extractor_agrees_amended:
  assumes "\<forall>s \<in> set (process_segments text).
      corrected s \<noteq> [] \<and> 0x0A \<notin> set (corrected s) \<and>
      re_search header_pattern (corrected s) = None"
  shows "map (\<lambda>r. (timestamp r, strip (content r)))
           (extract_segments_improved (write_output (process_segments text))) =
         map (\<lambda>s. (header_text (start_time s) (end_time s), original s))
           (process_segments (write_output (process_segments text)))"
proof -
  let ?us = "map (\<lambda>s. (start_time s, end_time s, corrected s)) (process_segments text)"
  have wf: "list_all wf_unit ?us"
    using assms by (intro pipeline_units_wf) simp
  have one: "list_all (\<lambda>(a, b, c). 0x0A \<notin> set c) ?us"
    using assms by (simp add: list_all_iff)
  show ?thesis
    unfolding written_units
    by (simp only: extractor_units [OF wf one] segmenter_units [OF wf])
qed

theorem extractor_agrees_amended_witness:
  "list_all (\<lambda>s. corrected s \<noteq> [] \<and> 0x0A \<notin> set (corrected s) \<and>
        re_search header_pattern (corrected s) = None) (process_segments three_headers) \<and>
   map (\<lambda>r. (timestamp r, strip (content r)))
     (extract_segments_improved (write_output (process_segments three_headers))) =
   [([0x5B, 0x30, 0x3A, 0x30, 0x30, 0x3A, 0x30, 0x31, 0x20, 0x2D, 0x20, 0x30, 0x3A, 0x30, 0x30, 0x3A, 0x30, 0x35, 0x5D], [0x61, 0x62, 0x63]), ([0x5B, 0x30, 0x3A, 0x30, 0x30, 0x3A, 0x30, 0x39, 0x20, 0x2D, 0x20, 0x30, 0x3A, 0x30, 0x30, 0x3A, 0x31, 0x32, 0x5D], [0x78])]"
proof -
  let ?us = "map (\<lambda>s. (start_time s, end_time s, corrected s)) (process_segments three_headers)"
  have h: "\<forall>s \<in> set (process_segments three_headers).
      corrected s \<noteq> [] \<and> 0x0A \<notin> set (corrected s) \<and>
      re_search header_pattern (corrected s) = None"
    by (simp add: three_headers_segments plain_texts_no_header)
  then have wf: "list_all wf_unit ?us"
    by (intro pipeline_units_wf) simp
  have "map (\<lambda>s. (header_text (start_time s) (end_time s), original s))
      (process_segments (write_output (process_segments three_headers))) =
      map (\<lambda>(a, b, c). (header_text a b, c)) ?us"
    unfolding written_units by (rule segmenter_units [OF wf])
  also have "\<dots> = [([0x5B, 0x30, 0x3A, 0x30, 0x30, 0x3A, 0x30, 0x31, 0x20, 0x2D, 0x20, 0x30, 0x3A, 0x30, 0x30, 0x3A, 0x30, 0x35, 0x5D], [0x61, 0x62, 0x63]), ([0x5B, 0x30, 0x3A, 0x30, 0x30, 0x3A, 0x30, 0x39, 0x20, 0x2D, 0x20, 0x30, 0x3A, 0x30, 0x30, 0x3A, 0x31, 0x32, 0x5D], [0x78])]"
    by (simp add: three_headers_segments header_text_def)
  finally show ?thesis
    using h extractor_agrees_amended [OF h] by (simp add: list_all_iff)
qed

end
